theory Spec2Isabelle
  imports Main
begin

section \<open>JavaScript values, objects and exceptions\<close>

text \<open>
  The facade of \<^verbatim>\<open>src/index.ts\<close> builds plain object literals and passes values of
  type \<^verbatim>\<open>any\<close> through. A value is modelled dynamically; an object literal is the list of
  its properties in the order the source writes them. Strings are byte lists, numbers
  are the integer-valued ones (every number the facade computes with, a port or a retry
  count, is an integer; sizes and time stamps are only passed through).
\<close>

datatype js_value =
    JUndefined
  | JNull
  | JBool bool
  | JNum int
  | JStr string
  | JArr "js_value list"
  | JObj "(string \<times> js_value) list"

type_synonym js_obj = "(string \<times> js_value) list"

type_synonym bytes = "string"

text \<open>Property read \<^verbatim>\<open>o.k\<close>: the value stored under the key, \<^verbatim>\<open>undefined\<close> when absent.\<close>

definition property :: "js_obj \<Rightarrow> string \<Rightarrow> js_value" where
  "property obj k = (case map_of obj k of Some v \<Rightarrow> v | None \<Rightarrow> JUndefined)"

definition has_field :: "js_obj \<Rightarrow> string \<Rightarrow> bool" where
  "has_field obj k = (k \<in> set (map fst obj))"

text \<open>JavaScript truthiness, as used by \<^verbatim>\<open>||\<close> and \<^verbatim>\<open>if\<close>.\<close>

fun truthy :: "js_value \<Rightarrow> bool" where
  "truthy JUndefined = False"
| "truthy JNull = False"
| "truthy (JBool b) = b"
| "truthy (JNum n) = (n \<noteq> 0)"
| "truthy (JStr s) = (s \<noteq> [])"
| "truthy (JArr xs) = True"
| "truthy (JObj kvs) = True"

text \<open>
  A thrown \<^verbatim>\<open>Error\<close>; every \<^verbatim>\<open>catch\<close> of the facade reads only \<^verbatim>\<open>error.message\<close>.
\<close>

datatype js_error = Error (message: string)

text \<open>\<^verbatim>\<open>opt || dflt\<close> for an optional number: \<^verbatim>\<open>undefined\<close> and \<^verbatim>\<open>0\<close> are falsy.\<close>

definition num_or :: "int option \<Rightarrow> int \<Rightarrow> int" where
  "num_or opt dflt = (case opt of None \<Rightarrow> dflt | Some n \<Rightarrow> if n = 0 then dflt else n)"

text \<open>Truthiness of an optional string: absent and empty are falsy.\<close>

definition str_truthy :: "string option \<Rightarrow> bool" where
  "str_truthy opt = (case opt of None \<Rightarrow> False | Some s \<Rightarrow> s \<noteq> [])"

subsection \<open>String builtins used by connect\<close>

text \<open>\<^verbatim>\<open>s.split(c)\<close> for a one-character separator.\<close>

fun split_on :: "char \<Rightarrow> string \<Rightarrow> string list" where
  "split_on c [] = [[]]"
| "split_on c (x # xs) =
     (if x = c then [] # split_on c xs
      else (case split_on c xs of [] \<Rightarrow> [[x]] | p # ps \<Rightarrow> (x # p) # ps))"

text \<open>Array read \<^verbatim>\<open>parts[i]\<close>: \<^verbatim>\<open>undefined\<close> (here \<open>None\<close>) out of range.\<close>

definition at_index :: "'a list \<Rightarrow> nat \<Rightarrow> 'a option" where
  "at_index xs i = (if i < length xs then Some (xs ! i) else None)"

definition is_white_space :: "char \<Rightarrow> bool" where
  "is_white_space c = (c \<in> set [CHR '' '', CHR 0x09, CHR 0x0A, CHR 0x0B, CHR 0x0C, CHR 0x0D])"

text \<open>The value of a character as a digit in bases up to 36; 36 for any other character.\<close>

definition digit_value :: "char \<Rightarrow> nat" where
  "digit_value c =
     (let n = of_char c :: nat in
      if 48 \<le> n \<and> n \<le> 57 then n - 48
      else if 97 \<le> n \<and> n \<le> 122 then n - 87
      else if 65 \<le> n \<and> n \<le> 90 then n - 55
      else 36)"

text \<open>
  \<^verbatim>\<open>parseInt(s, radix)\<close> for an absent radix (\<open>None\<close>) or a radix from 2 to 36:
  leading white space is skipped, one sign is read, a \<^verbatim>\<open>0x\<close> prefix selects base 16 when the
  radix is absent or 16, and the longest run of digits of the base is the value.
  \<open>None\<close> is \<^verbatim>\<open>NaN\<close>. An argument of \<^verbatim>\<open>undefined\<close> is the string \<^verbatim>\<open>"undefined"\<close>, which has no
  digit in base 10: \<^verbatim>\<open>NaN\<close>.

  The value here is the exact integer. JavaScript returns the nearest double, which is
  the same number for every magnitude up to \<open>2^53\<close> and may differ beyond; it also skips
  the blanks outside ASCII (\<^verbatim>\<open>U+00A0\<close> and others), which are not single bytes of a
  string here. No property below depends on a parsed value outside that range.
\<close>

definition parseInt :: "string option \<Rightarrow> nat option \<Rightarrow> int option" where
  "parseInt arg radix =
     (case arg of
        None \<Rightarrow> None
      | Some s \<Rightarrow>
          (let s1 = dropWhile is_white_space s;
               neg = (case s1 of [] \<Rightarrow> False | c # _ \<Rightarrow> c = CHR ''-'');
               s2 = (case s1 of [] \<Rightarrow> [] | c # r \<Rightarrow> if c = CHR ''-'' \<or> c = CHR ''+'' then r else s1);
               hex = ((radix = None \<or> radix = Some 16) \<and> (take 2 s2 = ''0x'' \<or> take 2 s2 = ''0X''));
               base = (if hex then 16 else (case radix of None \<Rightarrow> 10 | Some r \<Rightarrow> r));
               s3 = (if hex then drop 2 s2 else s2);
               ds = takeWhile (\<lambda>c. digit_value c < base) s3;
               v = foldl (\<lambda>a c. a * int base + int (digit_value c)) 0 ds
           in if ds = [] then None else Some (if neg then - v else v)))"

text \<open>
  Number to string, as a template literal prints an integer of magnitude below \<open>10^21\<close>:
  all its digits. From \<open>10^21\<close> on JavaScript prints an exponent form, which this
  function does not; no property below depends on the text of such a number.
\<close>

fun digits_of :: "nat \<Rightarrow> string" where
  "digits_of n =
     (if n < 10 then [char_of (48 + n)]
      else digits_of (n div 10) @ [char_of (48 + n mod 10)])"

declare digits_of.simps [simp del]

definition number_to_string :: "int \<Rightarrow> string" where
  "number_to_string i = (if i < 0 then CHR ''-'' # digits_of (nat (- i)) else digits_of (nat i))"

section \<open>The client, its configuration and the outside world\<close>

datatype private_key = KeyPath string | KeyBuffer bytes

record SFTPConfig =
  host :: string
  port :: "int option"
  username :: string
  password :: "string option"
  privateKey :: "private_key option"
  passphrase :: "string option"
  retries :: "int option"
  retry_factor :: "int option"
  retry_minTimeout :: "int option"

text \<open>The two mutable fields of the class; \<^verbatim>\<open>this.client\<close> is the outside world below.\<close>

record SFTPClient =
  connected :: bool
  config :: "SFTPConfig option"

text \<open>The constructor: \<^verbatim>\<open>connected = false\<close>, \<^verbatim>\<open>config = null\<close>.\<close>

definition new_client :: SFTPClient where
  "new_client = \<lparr>connected = False, config = None\<rparr>"

datatype mode = ModeStr string | ModeNum int

datatype content = ContentStr string | ContentBuf bytes

record Dirent =
  name :: string
  isDirectory :: bool

text \<open>
  An \<^verbatim>\<open>fs.Stats\<close> object: its data properties (\<^verbatim>\<open>size\<close>, \<^verbatim>\<open>mtimeMs\<close>, \<^verbatim>\<open>atimeMs\<close>, ...) and
  the answer of its method \<^verbatim>\<open>isDirectory()\<close>.
\<close>

record Stats =
  props :: js_obj
  stats_isDirectory :: bool

text \<open>
  Every call the facade makes on \<^verbatim>\<open>ssh2-sftp-client\<close>, on \<^verbatim>\<open>fs\<close> and on \<^verbatim>\<open>process\<close>, with its
  arguments. The trace of the calls made is part of the state, so that "no I/O is
  attempted" and "the SFTP client is never used" are statements about the trace;
  \<open>is_client_call\<close> tells the calls on the SFTP client from those on the local machine.
\<close>

datatype io_call =
    ClientConnect SFTPConfig
  | ClientEnd
  | ClientList string
  | ClientPut string string
  | ClientPutBuffer bytes string
  | ClientGet string string
  | ClientGetBuffer string
  | ClientDelete string
  | ClientMkdir string bool
  | ClientRmdir string bool
  | ClientRename string string
  | ClientChmod string mode
  | ClientExists string
  | ClientStat string
  | ClientUploadDir string string
  | ClientDownloadDir string string
  | ClientCwd
  | FsReadFileSync string "string option"
  | FsReaddirSync string
  | FsStatSync string
  | FsCopyFileSync string string
  | FsUnlinkSync string
  | FsMkdirSync string bool
  | FsRmSync string bool
  | FsRenameSync string string
  | FsChmodSync string "int option"
  | FsExistsSync string
  | FsWriteFileSync string content string
  | ProcessCwd

fun is_client_call :: "io_call \<Rightarrow> bool" where
  "is_client_call (FsReadFileSync p e) = False"
| "is_client_call (FsReaddirSync p) = False"
| "is_client_call (FsStatSync p) = False"
| "is_client_call (FsCopyFileSync a b) = False"
| "is_client_call (FsUnlinkSync p) = False"
| "is_client_call (FsMkdirSync p r) = False"
| "is_client_call (FsRmSync p r) = False"
| "is_client_call (FsRenameSync a b) = False"
| "is_client_call (FsChmodSync p m) = False"
| "is_client_call (FsExistsSync p) = False"
| "is_client_call (FsWriteFileSync p c e) = False"
| "is_client_call ProcessCwd = False"
| "is_client_call c = True"

datatype io_event = Event (call_of: io_call) (threw: bool)

record 'w sys =
  world :: 'w
  trace :: "io_event list"

text \<open>An outside call: from the world to a thrown error or a value, and the next world.\<close>

type_synonym ('w, 'a) ext = "'w \<Rightarrow> (js_error + 'a) \<times> 'w"

text \<open>The methods of \<^verbatim>\<open>ssh2-sftp-client\<close> that the facade awaits.\<close>

record 'w sftp_api =
  client_connect :: "SFTPConfig \<Rightarrow> ('w, unit) ext"
  client_end :: "('w, unit) ext"
  client_list :: "string \<Rightarrow> ('w, js_obj list) ext"
  client_put :: "string \<Rightarrow> string \<Rightarrow> ('w, unit) ext"
  client_put_buffer :: "bytes \<Rightarrow> string \<Rightarrow> ('w, unit) ext"
  client_get :: "string \<Rightarrow> string \<Rightarrow> ('w, unit) ext"
  client_get_buffer :: "string \<Rightarrow> ('w, bytes) ext"
  client_delete :: "string \<Rightarrow> ('w, unit) ext"
  client_mkdir :: "string \<Rightarrow> bool \<Rightarrow> ('w, unit) ext"
  client_rmdir :: "string \<Rightarrow> bool \<Rightarrow> ('w, unit) ext"
  client_rename :: "string \<Rightarrow> string \<Rightarrow> ('w, unit) ext"
  client_chmod :: "string \<Rightarrow> mode \<Rightarrow> ('w, unit) ext"
  client_exists :: "string \<Rightarrow> ('w, js_value) ext"
  client_stat :: "string \<Rightarrow> ('w, js_value) ext"
  client_uploadDir :: "string \<Rightarrow> string \<Rightarrow> ('w, unit) ext"
  client_downloadDir :: "string \<Rightarrow> string \<Rightarrow> ('w, unit) ext"
  client_cwd :: "('w, string) ext"

text \<open>
  The functions of Node.js that the facade calls. \<^verbatim>\<open>fs.existsSync\<close> never throws;
  \<^verbatim>\<open>path.join\<close>, \<^verbatim>\<open>Buffer.from\<close> and \<^verbatim>\<open>buffer.toString\<close> are pure (the last two throw on an
  unknown encoding). \<open>stack_limit\<close> is the depth of recursion the engine allows before
  it throws \<^verbatim>\<open>RangeError: Maximum call stack size exceeded\<close>.
\<close>

record 'w node_api =
  fs_readFileSync_buffer :: "string \<Rightarrow> ('w, bytes) ext"
  fs_readFileSync :: "string \<Rightarrow> string \<Rightarrow> ('w, string) ext"
  fs_readdirSync :: "string \<Rightarrow> ('w, Dirent list) ext"
  fs_statSync :: "string \<Rightarrow> ('w, Stats) ext"
  fs_copyFileSync :: "string \<Rightarrow> string \<Rightarrow> ('w, unit) ext"
  fs_unlinkSync :: "string \<Rightarrow> ('w, unit) ext"
  fs_mkdirSync :: "string \<Rightarrow> bool \<Rightarrow> ('w, unit) ext"
  fs_rmSync :: "string \<Rightarrow> bool \<Rightarrow> ('w, unit) ext"
  fs_renameSync :: "string \<Rightarrow> string \<Rightarrow> ('w, unit) ext"
  fs_chmodSync :: "string \<Rightarrow> int option \<Rightarrow> ('w, unit) ext"
  fs_existsSync :: "string \<Rightarrow> 'w \<Rightarrow> bool \<times> 'w"
  fs_writeFileSync :: "string \<Rightarrow> content \<Rightarrow> string \<Rightarrow> ('w, unit) ext"
  process_cwd :: "('w, string) ext"
  path_join :: "string \<Rightarrow> string \<Rightarrow> string"
  Buffer_from :: "string \<Rightarrow> string \<Rightarrow> js_error + bytes"
  Buffer_toString :: "bytes \<Rightarrow> string \<Rightarrow> js_error + string"
  stack_limit :: nat

record 'w env =
  client :: "'w sftp_api"
  node :: "'w node_api"

text \<open>A computation of the facade: it may throw, and it advances the world and the trace.\<close>

type_synonym ('w, 'a) io = "'w sys \<Rightarrow> (js_error + 'a) \<times> 'w sys"

definition call :: "io_call \<Rightarrow> ('w, 'a) ext \<Rightarrow> ('w, 'a) io" where
  "call c f s =
     (case f (world s) of
        (r, w') \<Rightarrow> (r, \<lparr>world = w', trace = trace s @ [Event c (isl r)]\<rparr>))"

definition call_nothrow :: "io_call \<Rightarrow> ('w \<Rightarrow> 'a \<times> 'w) \<Rightarrow> 'w sys \<Rightarrow> 'a \<times> 'w sys" where
  "call_nothrow c f s =
     (case f (world s) of
        (r, w') \<Rightarrow> (r, \<lparr>world = w', trace = trace s @ [Event c False]\<rparr>))"

section \<open>The facade: class SFTPClient\<close>

subsection \<open>Result objects and control flow\<close>

text \<open>The three object literals the facade returns.\<close>

definition ok_result :: "string \<Rightarrow> js_obj" where
  "ok_result m = [(''success'', JBool True), (''message'', JStr m)]"

definition ok_data :: "string \<Rightarrow> js_value \<Rightarrow> js_obj" where
  "ok_data m d = [(''success'', JBool True), (''message'', JStr m), (''data'', d)]"

definition fail_result :: "string \<Rightarrow> js_error \<Rightarrow> js_obj" where
  "fail_result m e = [(''success'', JBool False), (''message'', JStr m), (''error'', JStr (message e))]"

text \<open>Sequencing of two steps, the second skipped when the first throws.\<close>

definition bind_io :: "('w, 'a) io \<Rightarrow> ('a \<Rightarrow> ('w, 'b) io) \<Rightarrow> ('w, 'b) io" where
  "bind_io m f s = (case m s of (Inl e, s') \<Rightarrow> (Inl e, s') | (Inr v, s') \<Rightarrow> f v s')"

text \<open>A step without I/O that may throw.\<close>

definition lift :: "js_error + 'a \<Rightarrow> ('w, 'a) io" where
  "lift r s = (r, s)"

text \<open>
  \<^verbatim>\<open>try { v = body; return on_ok(v) } catch (error) { return {success: false, message:
  fail_msg, error: error.message} }\<close>
\<close>

definition try_catch :: "('w, 'a) io \<Rightarrow> ('a \<Rightarrow> js_obj) \<Rightarrow> string \<Rightarrow> 'w sys \<Rightarrow> js_obj \<times> 'w sys" where
  "try_catch body on_ok fail_msg s =
     (case body s of
        (Inr v, s') \<Rightarrow> (on_ok v, s')
      | (Inl e, s') \<Rightarrow> (fail_result fail_msg e, s'))"

text \<open>A parameter with a default value: the default applies to \<^verbatim>\<open>undefined\<close>.\<close>

definition default_arg :: "'a option \<Rightarrow> 'a \<Rightarrow> 'a" where
  "default_arg a d = (case a of None \<Rightarrow> d | Some v \<Rightarrow> v)"

definition checkConnection :: "SFTPClient \<Rightarrow> js_error + unit" where
  "checkConnection c =
     (if \<not> connected c then Inl (Error ''Not connected to server'') else Inr ())"

definition isLocalhost :: "SFTPClient \<Rightarrow> bool" where
  "isLocalhost c =
     (case config c of
        None \<Rightarrow> False
      | Some cfg \<Rightarrow> host cfg = ''localhost'' \<or> host cfg = ''127.0.0.1'')"

definition isConnected :: "SFTPClient \<Rightarrow> bool" where
  "isConnected c = connected c"

definition getConfig :: "SFTPClient \<Rightarrow> SFTPConfig option" where
  "getConfig c = config c"

subsection \<open>Localhost operations\<close>

text \<open>The body of \<^verbatim>\<open>items.map(item => ...)\<close> in \<^verbatim>\<open>listLocal\<close>: one \<^verbatim>\<open>statSync\<close> per entry.\<close>

fun listLocal_items :: "'w env \<Rightarrow> string \<Rightarrow> Dirent list \<Rightarrow> ('w, js_value list) io" where
  "listLocal_items env dirPath [] s = (Inr [], s)"
| "listLocal_items env dirPath (item # rest) s =
     (let fullPath = path_join (node env) dirPath (name item) in
      case call (FsStatSync fullPath) (fs_statSync (node env) fullPath) s of
        (Inl e, s1) \<Rightarrow> (Inl e, s1)
      | (Inr stats, s1) \<Rightarrow>
          (case listLocal_items env dirPath rest s1 of
             (Inl e, s2) \<Rightarrow> (Inl e, s2)
           | (Inr files, s2) \<Rightarrow>
               (Inr (JObj [(''type'', JStr (if isDirectory item then ''d'' else ''-'')),
                           (''name'', JStr (name item)),
                           (''size'', property (props stats) ''size''),
                           (''modifyTime'', property (props stats) ''mtimeMs''),
                           (''accessTime'', property (props stats) ''atimeMs''),
                           (''rights'', JObj [(''user'', JStr ''rwx''),
                                              (''group'', JStr ''r-x''),
                                              (''other'', JStr ''r-x'')])]
                     # files), s2)))"

definition listLocal :: "'w env \<Rightarrow> string \<Rightarrow> 'w sys \<Rightarrow> js_obj \<times> 'w sys" where
  "listLocal env dirPath =
     try_catch
       (bind_io (call (FsReaddirSync dirPath) (fs_readdirSync (node env) dirPath))
                (\<lambda>items. listLocal_items env dirPath items))
       (\<lambda>files. ok_data ''Files listed successfully'' (JArr files))
       ''Failed to list files''"

definition putLocal :: "'w env \<Rightarrow> string \<Rightarrow> string \<Rightarrow> 'w sys \<Rightarrow> js_obj \<times> 'w sys" where
  "putLocal env localPath remotePath =
     try_catch
       (call (FsCopyFileSync localPath remotePath) (fs_copyFileSync (node env) localPath remotePath))
       (\<lambda>_. ok_data ''File copied successfully''
               (JObj [(''localPath'', JStr localPath), (''remotePath'', JStr remotePath)]))
       ''Copy failed''"

definition getLocal :: "'w env \<Rightarrow> string \<Rightarrow> string \<Rightarrow> 'w sys \<Rightarrow> js_obj \<times> 'w sys" where
  "getLocal env remotePath localPath = putLocal env remotePath localPath"

definition deleteLocal :: "'w env \<Rightarrow> string \<Rightarrow> 'w sys \<Rightarrow> js_obj \<times> 'w sys" where
  "deleteLocal env filePath =
     try_catch
       (call (FsUnlinkSync filePath) (fs_unlinkSync (node env) filePath))
       (\<lambda>_. ok_data ''File deleted successfully'' (JObj [(''filePath'', JStr filePath)]))
       ''Delete failed''"

definition mkdirLocal :: "'w env \<Rightarrow> string \<Rightarrow> bool \<Rightarrow> 'w sys \<Rightarrow> js_obj \<times> 'w sys" where
  "mkdirLocal env dirPath recursive =
     try_catch
       (call (FsMkdirSync dirPath recursive) (fs_mkdirSync (node env) dirPath recursive))
       (\<lambda>_. ok_data ''Directory created successfully'' (JObj [(''dirPath'', JStr dirPath)]))
       ''Failed to create directory''"

text \<open>\<^verbatim>\<open>fs.rmSync(dirPath, { recursive, force: true })\<close>\<close>

definition rmdirLocal :: "'w env \<Rightarrow> string \<Rightarrow> bool \<Rightarrow> 'w sys \<Rightarrow> js_obj \<times> 'w sys" where
  "rmdirLocal env dirPath recursive =
     try_catch
       (call (FsRmSync dirPath recursive) (fs_rmSync (node env) dirPath recursive))
       (\<lambda>_. ok_data ''Directory removed successfully'' (JObj [(''dirPath'', JStr dirPath)]))
       ''Failed to remove directory''"

definition renameLocal :: "'w env \<Rightarrow> string \<Rightarrow> string \<Rightarrow> 'w sys \<Rightarrow> js_obj \<times> 'w sys" where
  "renameLocal env oldPath newPath =
     try_catch
       (call (FsRenameSync oldPath newPath) (fs_renameSync (node env) oldPath newPath))
       (\<lambda>_. ok_data ''Renamed successfully''
               (JObj [(''oldPath'', JStr oldPath), (''newPath'', JStr newPath)]))
       ''Rename failed''"

definition mode_value :: "mode \<Rightarrow> js_value" where
  "mode_value m = (case m of ModeStr str \<Rightarrow> JStr str | ModeNum n \<Rightarrow> JNum n)"

definition chmodLocal :: "'w env \<Rightarrow> string \<Rightarrow> mode \<Rightarrow> 'w sys \<Rightarrow> js_obj \<times> 'w sys" where
  "chmodLocal env filePath mode =
     (let modeNum = (case mode of ModeStr str \<Rightarrow> parseInt (Some str) (Some 8) | ModeNum n \<Rightarrow> Some n) in
      try_catch
        (call (FsChmodSync filePath modeNum) (fs_chmodSync (node env) filePath modeNum))
        (\<lambda>_. ok_data ''Permissions changed successfully''
                (JObj [(''filePath'', JStr filePath), (''mode'', mode_value mode)]))
        ''Failed to change permissions'')"

definition existsLocal :: "'w env \<Rightarrow> string \<Rightarrow> 'w sys \<Rightarrow> js_obj \<times> 'w sys" where
  "existsLocal env filePath =
     try_catch
       (\<lambda>s. case call_nothrow (FsExistsSync filePath) (fs_existsSync (node env) filePath) s of
               (ex, s1) \<Rightarrow>
                 if ex then
                   (case call (FsStatSync filePath) (fs_statSync (node env) filePath) s1 of
                      (Inl e, s2) \<Rightarrow> (Inl e, s2)
                    | (Inr stats, s2) \<Rightarrow>
                        (Inr (ex, JStr (if stats_isDirectory stats then ''d'' else ''-'')), s2))
                 else (Inr (ex, JNull), s1))
       (\<lambda>(ex, type). ok_data ''Checked existence'' (JObj [(''exists'', JBool ex), (''type'', type)]))
       ''Failed to check existence''"

definition statLocal :: "'w env \<Rightarrow> string \<Rightarrow> 'w sys \<Rightarrow> js_obj \<times> 'w sys" where
  "statLocal env filePath =
     try_catch
       (call (FsStatSync filePath) (fs_statSync (node env) filePath))
       (\<lambda>stats. ok_data ''Stats retrieved successfully'' (JObj (props stats)))
       ''Failed to get stats''"

definition readFileLocal :: "'w env \<Rightarrow> string \<Rightarrow> string \<Rightarrow> 'w sys \<Rightarrow> js_obj \<times> 'w sys" where
  "readFileLocal env filePath encoding =
     try_catch
       (call (FsReadFileSync filePath (Some encoding)) (fs_readFileSync (node env) filePath encoding))
       (\<lambda>content. ok_data ''File read successfully'' (JObj [(''content'', JStr content)]))
       ''Failed to read file''"

definition writeFileLocal :: "'w env \<Rightarrow> string \<Rightarrow> content \<Rightarrow> string \<Rightarrow> 'w sys \<Rightarrow> js_obj \<times> 'w sys" where
  "writeFileLocal env filePath content encoding =
     try_catch
       (call (FsWriteFileSync filePath content encoding)
             (fs_writeFileSync (node env) filePath content encoding))
       (\<lambda>_. ok_data ''File written successfully'' (JObj [(''filePath'', JStr filePath)]))
       ''Failed to write file''"

text \<open>
  \<^verbatim>\<open>copyDirRecursive\<close> calls itself once per sub-directory, inside a loop over the entries
  of the source directory. The loop is \<open>copyDir_items\<close>. The second argument is the number
  of frames the call stack still has room for: a call with none left throws the
  engine's \<^verbatim>\<open>RangeError\<close>, which the \<^verbatim>\<open>catch\<close> of \<^verbatim>\<open>putDirLocal\<close> receives as any other error.
\<close>

function copyDirRecursive :: "'w env \<Rightarrow> nat \<Rightarrow> string \<Rightarrow> string \<Rightarrow> ('w, unit) io"
  and copyDir_items :: "'w env \<Rightarrow> nat \<Rightarrow> string \<Rightarrow> string \<Rightarrow> Dirent list \<Rightarrow> ('w, unit) io" where
  "copyDirRecursive env 0 src dest s = (Inl (Error ''Maximum call stack size exceeded''), s)"
| "copyDirRecursive env (Suc depth) src dest s =
     (case call_nothrow (FsExistsSync dest) (fs_existsSync (node env) dest) s of
        (ex, s1) \<Rightarrow>
          (case (if \<not> ex then call (FsMkdirSync dest True) (fs_mkdirSync (node env) dest True) s1
                 else (Inr (), s1)) of
             (Inl e, s2) \<Rightarrow> (Inl e, s2)
           | (Inr _, s2) \<Rightarrow>
               (case call (FsReaddirSync src) (fs_readdirSync (node env) src) s2 of
                  (Inl e, s3) \<Rightarrow> (Inl e, s3)
                | (Inr items, s3) \<Rightarrow> copyDir_items env depth src dest items s3)))"
| "copyDir_items env depth src dest [] s = (Inr (), s)"
| "copyDir_items env depth src dest (item # rest) s =
     (let srcPath = path_join (node env) src (name item);
          destPath = path_join (node env) dest (name item)
      in case (if isDirectory item then copyDirRecursive env depth srcPath destPath s
               else call (FsCopyFileSync srcPath destPath)
                         (fs_copyFileSync (node env) srcPath destPath) s) of
           (Inl e, s1) \<Rightarrow> (Inl e, s1)
         | (Inr _, s1) \<Rightarrow> copyDir_items env depth src dest rest s1)"
  by pat_completeness auto
termination
  by (relation "measures
        [\<lambda>x. case x of Inl (env, depth, src, dest, s) \<Rightarrow> 2 * depth
                      | Inr (env, depth, src, dest, items, s) \<Rightarrow> 2 * depth + 1,
         \<lambda>x. case x of Inl (env, depth, src, dest, s) \<Rightarrow> 0
                      | Inr (env, depth, src, dest, items, s) \<Rightarrow> length items]")
     auto

definition putDirLocal :: "'w env \<Rightarrow> string \<Rightarrow> string \<Rightarrow> 'w sys \<Rightarrow> js_obj \<times> 'w sys" where
  "putDirLocal env srcDir destDir =
     try_catch
       (copyDirRecursive env (stack_limit (node env)) srcDir destDir)
       (\<lambda>_. ok_data ''Directory copied successfully''
               (JObj [(''srcDir'', JStr srcDir), (''destDir'', JStr destDir)]))
       ''Failed to copy directory''"

definition getDirLocal :: "'w env \<Rightarrow> string \<Rightarrow> string \<Rightarrow> 'w sys \<Rightarrow> js_obj \<times> 'w sys" where
  "getDirLocal env srcDir destDir = putDirLocal env srcDir destDir"

subsection \<open>Connecting and disconnecting\<close>

text \<open>
  The \<^verbatim>\<open>catch\<close> block of \<^verbatim>\<open>connect\<close>: it clears the flag and keeps whatever \<^verbatim>\<open>this.config\<close>
  held when the error was thrown.
\<close>

definition connect_catch :: "js_error \<Rightarrow> SFTPClient \<Rightarrow> 'w sys \<Rightarrow> (js_error + js_obj) \<times> SFTPClient \<times> 'w sys" where
  "connect_catch e c s = (Inr (fail_result ''Connection failed'' e), c\<lparr>connected := False\<rparr>, s)"

text \<open>
  The block "Handle authentication" of \<^verbatim>\<open>connect\<close>. It completes the configuration \<open>cfg1\<close>
  built so far from the caller's \<open>cfg\<close>, or throws; when it throws, \<^verbatim>\<open>this.config\<close> still
  holds \<open>cfg1\<close>, since the only statement that can throw before the explicit \<^verbatim>\<open>throw\<close> is
  the \<^verbatim>\<open>readFileSync\<close> on the right of an assignment. An empty string is falsy, a
  \<^verbatim>\<open>Buffer\<close> is always truthy.
\<close>

definition with_passphrase :: "SFTPConfig \<Rightarrow> SFTPConfig \<Rightarrow> SFTPConfig" where
  "with_passphrase cfg cfg2 =
     (if str_truthy (passphrase cfg) then cfg2\<lparr>passphrase := passphrase cfg\<rparr> else cfg2)"

definition connect_auth :: "'w env \<Rightarrow> SFTPConfig \<Rightarrow> SFTPConfig \<Rightarrow> ('w, SFTPConfig) io" where
  "connect_auth env cfg cfg1 s =
     (if str_truthy (password cfg) then (Inr (cfg1\<lparr>password := password cfg\<rparr>), s)
      else
        (case privateKey cfg of
           Some (KeyPath p) \<Rightarrow>
             if p \<noteq> [] then
               (case call (FsReadFileSync p None) (fs_readFileSync_buffer (node env) p) s of
                  (Inl e, s1) \<Rightarrow> (Inl e, s1)
                | (Inr buf, s1) \<Rightarrow>
                    (Inr (with_passphrase cfg (cfg1\<lparr>privateKey := Some (KeyBuffer buf)\<rparr>)), s1))
             else (Inl (Error ''Password or private key is required''), s)
         | Some (KeyBuffer buf) \<Rightarrow>
             (Inr (with_passphrase cfg (cfg1\<lparr>privateKey := Some (KeyBuffer buf)\<rparr>)), s)
         | None \<Rightarrow> (Inl (Error ''Password or private key is required''), s)))"

text \<open>
  \<^verbatim>\<open>connect\<close>. In the remote branch \<^verbatim>\<open>parts[0]\<close> always exists (\<^verbatim>\<open>split\<close> returns at least one
  part), so the default given to \<open>default_arg\<close> there is never used.
\<close>

definition connect :: "'w env \<Rightarrow> SFTPConfig \<Rightarrow> SFTPClient \<Rightarrow> 'w sys \<Rightarrow> (js_error + js_obj) \<times> SFTPClient \<times> 'w sys" where
  "connect env cfg c s =
     (if host cfg = ''localhost'' \<or> host cfg = ''127.0.0.1'' then
        (Inr (ok_result ''Connected to localhost''), c\<lparr>connected := True, config := Some cfg\<rparr>, s)
      else
        let has_colon = (CHR '':'' \<in> set (host cfg));
            parts = split_on CHR '':'' (host cfg);
            port0 = num_or (port cfg) 22;
            host' = (if has_colon then default_arg (at_index parts 0) (host cfg) else host cfg);
            port' = (if has_colon then num_or (parseInt (at_index parts 1) None) port0 else port0);
            cfg1 = \<lparr>host = host', port = Some port', username = username cfg,
                    password = None, privateKey = None, passphrase = None,
                    retries = Some (num_or (retries cfg) 3),
                    retry_factor = Some (num_or (retry_factor cfg) 2),
                    retry_minTimeout = Some (num_or (retry_minTimeout cfg) 2000)\<rparr>
        in
          (case connect_auth env cfg cfg1 s of
             (Inl e, s1) \<Rightarrow> connect_catch e (c\<lparr>config := Some cfg1\<rparr>) s1
           | (Inr cfg2, s1) \<Rightarrow>
               (case call (ClientConnect cfg2) (client_connect (client env) cfg2) s1 of
                  (Inl e, s2) \<Rightarrow> connect_catch e (c\<lparr>config := Some cfg2\<rparr>) s2
                | (Inr _, s2) \<Rightarrow>
                    (Inr (ok_result (''Connected to '' @ host' @ '':'' @ number_to_string port')),
                     c\<lparr>connected := True, config := Some cfg2\<rparr>, s2))))"

definition disconnect :: "'w env \<Rightarrow> SFTPClient \<Rightarrow> 'w sys \<Rightarrow> (js_error + js_obj) \<times> SFTPClient \<times> 'w sys" where
  "disconnect env c s =
     (if isLocalhost c then
        (Inr (ok_result ''Disconnected from localhost''), c\<lparr>connected := False\<rparr>, s)
      else
        (case call ClientEnd (client_end (client env)) s of
           (Inl e, s1) \<Rightarrow> (Inr (fail_result ''Disconnect failed'' e), c, s1)
         | (Inr _, s1) \<Rightarrow> (Inr (ok_result ''Disconnected successfully''), c\<lparr>connected := False\<rparr>, s1)))"

subsection \<open>The operations\<close>

text \<open>
  Every operation starts with \<^verbatim>\<open>this.checkConnection()\<close>, outside the \<^verbatim>\<open>try\<close>: its error is
  thrown to the caller. The rest is one \<^verbatim>\<open>try\<close>/\<^verbatim>\<open>catch\<close>; the localhost helpers catch their
  own errors and never throw.
\<close>

definition list :: "'w env \<Rightarrow> string option \<Rightarrow> SFTPClient \<Rightarrow> ('w, js_obj) io" where
  "list env remotePath' c s =
     (let remotePath = default_arg remotePath' ''/'' in
      case checkConnection c of
        Inl e \<Rightarrow> (Inl e, s)
      | Inr _ \<Rightarrow>
          apfst Inr
            (if isLocalhost c then listLocal env remotePath s
             else
               try_catch
                 (call (ClientList remotePath) (client_list (client env) remotePath))
                 (\<lambda>items. ok_data ''Files listed successfully''
                    (JArr (map (\<lambda>item. JObj
                       [(''type'', property item ''type''),
                        (''name'', property item ''name''),
                        (''size'', property item ''size''),
                        (''modifyTime'', property item ''modifyTime''),
                        (''accessTime'', property item ''accessTime''),
                        (''rights'', property item ''rights''),
                        (''owner'', property item ''owner''),
                        (''group'', property item ''group''),
                        (''longname'', property item ''longname'')]) items)))
                 ''Failed to list files'' s))"

definition put :: "'w env \<Rightarrow> string \<Rightarrow> string \<Rightarrow> SFTPClient \<Rightarrow> ('w, js_obj) io" where
  "put env localPath remotePath c s =
     (case checkConnection c of
        Inl e \<Rightarrow> (Inl e, s)
      | Inr _ \<Rightarrow>
          apfst Inr
            (if isLocalhost c then putLocal env localPath remotePath s
             else
               try_catch
                 (call (ClientPut localPath remotePath) (client_put (client env) localPath remotePath))
                 (\<lambda>_. ok_data ''File uploaded successfully''
                         (JObj [(''localPath'', JStr localPath), (''remotePath'', JStr remotePath)]))
                 ''Upload failed'' s))"

definition get :: "'w env \<Rightarrow> string \<Rightarrow> string \<Rightarrow> SFTPClient \<Rightarrow> ('w, js_obj) io" where
  "get env remotePath localPath c s =
     (case checkConnection c of
        Inl e \<Rightarrow> (Inl e, s)
      | Inr _ \<Rightarrow>
          apfst Inr
            (if isLocalhost c then getLocal env remotePath localPath s
             else
               try_catch
                 (call (ClientGet remotePath localPath) (client_get (client env) remotePath localPath))
                 (\<lambda>_. ok_data ''File downloaded successfully''
                         (JObj [(''remotePath'', JStr remotePath), (''localPath'', JStr localPath)]))
                 ''Download failed'' s))"

definition delete :: "'w env \<Rightarrow> string \<Rightarrow> SFTPClient \<Rightarrow> ('w, js_obj) io" where
  "delete env remotePath c s =
     (case checkConnection c of
        Inl e \<Rightarrow> (Inl e, s)
      | Inr _ \<Rightarrow>
          apfst Inr
            (if isLocalhost c then deleteLocal env remotePath s
             else
               try_catch
                 (call (ClientDelete remotePath) (client_delete (client env) remotePath))
                 (\<lambda>_. ok_data ''File deleted successfully'' (JObj [(''remotePath'', JStr remotePath)]))
                 ''Delete failed'' s))"

definition mkdir :: "'w env \<Rightarrow> string \<Rightarrow> bool option \<Rightarrow> SFTPClient \<Rightarrow> ('w, js_obj) io" where
  "mkdir env remotePath recursive' c s =
     (let recursive = default_arg recursive' True in
      case checkConnection c of
        Inl e \<Rightarrow> (Inl e, s)
      | Inr _ \<Rightarrow>
          apfst Inr
            (if isLocalhost c then mkdirLocal env remotePath recursive s
             else
               try_catch
                 (call (ClientMkdir remotePath recursive) (client_mkdir (client env) remotePath recursive))
                 (\<lambda>_. ok_data ''Directory created successfully'' (JObj [(''remotePath'', JStr remotePath)]))
                 ''Failed to create directory'' s))"

definition rmdir :: "'w env \<Rightarrow> string \<Rightarrow> bool option \<Rightarrow> SFTPClient \<Rightarrow> ('w, js_obj) io" where
  "rmdir env remotePath recursive' c s =
     (let recursive = default_arg recursive' True in
      case checkConnection c of
        Inl e \<Rightarrow> (Inl e, s)
      | Inr _ \<Rightarrow>
          apfst Inr
            (if isLocalhost c then rmdirLocal env remotePath recursive s
             else
               try_catch
                 (call (ClientRmdir remotePath recursive) (client_rmdir (client env) remotePath recursive))
                 (\<lambda>_. ok_data ''Directory removed successfully'' (JObj [(''remotePath'', JStr remotePath)]))
                 ''Failed to remove directory'' s))"

definition rename :: "'w env \<Rightarrow> string \<Rightarrow> string \<Rightarrow> SFTPClient \<Rightarrow> ('w, js_obj) io" where
  "rename env oldPath newPath c s =
     (case checkConnection c of
        Inl e \<Rightarrow> (Inl e, s)
      | Inr _ \<Rightarrow>
          apfst Inr
            (if isLocalhost c then renameLocal env oldPath newPath s
             else
               try_catch
                 (call (ClientRename oldPath newPath) (client_rename (client env) oldPath newPath))
                 (\<lambda>_. ok_data ''Renamed successfully''
                         (JObj [(''oldPath'', JStr oldPath), (''newPath'', JStr newPath)]))
                 ''Rename failed'' s))"

definition chmod :: "'w env \<Rightarrow> string \<Rightarrow> mode \<Rightarrow> SFTPClient \<Rightarrow> ('w, js_obj) io" where
  "chmod env remotePath mode c s =
     (case checkConnection c of
        Inl e \<Rightarrow> (Inl e, s)
      | Inr _ \<Rightarrow>
          apfst Inr
            (if isLocalhost c then chmodLocal env remotePath mode s
             else
               try_catch
                 (call (ClientChmod remotePath mode) (client_chmod (client env) remotePath mode))
                 (\<lambda>_. ok_data ''Permissions changed successfully''
                         (JObj [(''remotePath'', JStr remotePath), (''mode'', mode_value mode)]))
                 ''Failed to change permissions'' s))"

text \<open>\<^verbatim>\<open>data: { exists: result !== false, type: result || null }\<close>\<close>

definition exists :: "'w env \<Rightarrow> string \<Rightarrow> SFTPClient \<Rightarrow> ('w, js_obj) io" where
  "exists env remotePath c s =
     (case checkConnection c of
        Inl e \<Rightarrow> (Inl e, s)
      | Inr _ \<Rightarrow>
          apfst Inr
            (if isLocalhost c then existsLocal env remotePath s
             else
               try_catch
                 (call (ClientExists remotePath) (client_exists (client env) remotePath))
                 (\<lambda>result. ok_data ''Checked existence''
                         (JObj [(''exists'', JBool (result \<noteq> JBool False)),
                                (''type'', if truthy result then result else JNull)]))
                 ''Failed to check existence'' s))"

definition stat :: "'w env \<Rightarrow> string \<Rightarrow> SFTPClient \<Rightarrow> ('w, js_obj) io" where
  "stat env remotePath c s =
     (case checkConnection c of
        Inl e \<Rightarrow> (Inl e, s)
      | Inr _ \<Rightarrow>
          apfst Inr
            (if isLocalhost c then statLocal env remotePath s
             else
               try_catch
                 (call (ClientStat remotePath) (client_stat (client env) remotePath))
                 (\<lambda>stats. ok_data ''Stats retrieved successfully'' stats)
                 ''Failed to get stats'' s))"

definition readFile :: "'w env \<Rightarrow> string \<Rightarrow> string option \<Rightarrow> SFTPClient \<Rightarrow> ('w, js_obj) io" where
  "readFile env remotePath encoding' c s =
     (let encoding = default_arg encoding' ''utf8'' in
      case checkConnection c of
        Inl e \<Rightarrow> (Inl e, s)
      | Inr _ \<Rightarrow>
          apfst Inr
            (if isLocalhost c then readFileLocal env remotePath encoding s
             else
               try_catch
                 (bind_io (call (ClientGetBuffer remotePath) (client_get_buffer (client env) remotePath))
                          (\<lambda>buffer. lift (Buffer_toString (node env) buffer encoding)))
                 (\<lambda>content. ok_data ''File read successfully'' (JObj [(''content'', JStr content)]))
                 ''Failed to read file'' s))"

definition writeFile :: "'w env \<Rightarrow> string \<Rightarrow> content \<Rightarrow> string option \<Rightarrow> SFTPClient \<Rightarrow> ('w, js_obj) io" where
  "writeFile env remotePath content encoding' c s =
     (let encoding = default_arg encoding' ''utf8'' in
      case checkConnection c of
        Inl e \<Rightarrow> (Inl e, s)
      | Inr _ \<Rightarrow>
          apfst Inr
            (if isLocalhost c then writeFileLocal env remotePath content encoding s
             else
               try_catch
                 (bind_io (lift (case content of
                                   ContentStr str \<Rightarrow> Buffer_from (node env) str encoding
                                 | ContentBuf buf \<Rightarrow> Inr buf))
                          (\<lambda>buffer. call (ClientPutBuffer buffer remotePath)
                                          (client_put_buffer (client env) buffer remotePath)))
                 (\<lambda>_. ok_data ''File written successfully'' (JObj [(''remotePath'', JStr remotePath)]))
                 ''Failed to write file'' s))"

definition putDir :: "'w env \<Rightarrow> string \<Rightarrow> string \<Rightarrow> SFTPClient \<Rightarrow> ('w, js_obj) io" where
  "putDir env localDir remoteDir c s =
     (case checkConnection c of
        Inl e \<Rightarrow> (Inl e, s)
      | Inr _ \<Rightarrow>
          apfst Inr
            (if isLocalhost c then putDirLocal env localDir remoteDir s
             else
               try_catch
                 (call (ClientUploadDir localDir remoteDir) (client_uploadDir (client env) localDir remoteDir))
                 (\<lambda>_. ok_data ''Directory uploaded successfully''
                         (JObj [(''localDir'', JStr localDir), (''remoteDir'', JStr remoteDir)]))
                 ''Failed to upload directory'' s))"

definition getDir :: "'w env \<Rightarrow> string \<Rightarrow> string \<Rightarrow> SFTPClient \<Rightarrow> ('w, js_obj) io" where
  "getDir env remoteDir localDir c s =
     (case checkConnection c of
        Inl e \<Rightarrow> (Inl e, s)
      | Inr _ \<Rightarrow>
          apfst Inr
            (if isLocalhost c then getDirLocal env remoteDir localDir s
             else
               try_catch
                 (call (ClientDownloadDir remoteDir localDir) (client_downloadDir (client env) remoteDir localDir))
                 (\<lambda>_. ok_data ''Directory downloaded successfully''
                         (JObj [(''remoteDir'', JStr remoteDir), (''localDir'', JStr localDir)]))
                 ''Failed to download directory'' s))"

definition pwd :: "'w env \<Rightarrow> SFTPClient \<Rightarrow> ('w, js_obj) io" where
  "pwd env c s =
     (case checkConnection c of
        Inl e \<Rightarrow> (Inl e, s)
      | Inr _ \<Rightarrow>
          apfst Inr
            (if isLocalhost c then
               try_catch
                 (call ProcessCwd (process_cwd (node env)))
                 (\<lambda>path. ok_data ''Current directory'' (JObj [(''path'', JStr path)]))
                 ''Failed to get current directory'' s
             else
               try_catch
                 (call ClientCwd (client_cwd (client env)))
                 (\<lambda>pwd. ok_data ''Current directory'' (JObj [(''path'', JStr pwd)]))
                 ''Failed to get current directory'' s))"

subsection \<open>One call of the public interface\<close>

datatype facade_call =
    Connect SFTPConfig
  | Disconnect
  | List "string option"
  | Put string string
  | Get string string
  | Delete string
  | Mkdir string "bool option"
  | Rmdir string "bool option"
  | Rename string string
  | Chmod string mode
  | Exists string
  | Stat string
  | ReadFile string "string option"
  | WriteFile string content "string option"
  | PutDir string string
  | GetDir string string
  | Pwd

text \<open>Only \<^verbatim>\<open>connect\<close> and \<^verbatim>\<open>disconnect\<close> assign to the fields of the client.\<close>

definition keep :: "SFTPClient \<Rightarrow> (js_error + js_obj) \<times> 'w sys \<Rightarrow> (js_error + js_obj) \<times> SFTPClient \<times> 'w sys" where
  "keep c rs = (fst rs, c, snd rs)"

fun invoke :: "'w env \<Rightarrow> facade_call \<Rightarrow> SFTPClient \<Rightarrow> 'w sys \<Rightarrow> (js_error + js_obj) \<times> SFTPClient \<times> 'w sys" where
  "invoke env (Connect cfg) c s = connect env cfg c s"
| "invoke env Disconnect c s = disconnect env c s"
| "invoke env (List p) c s = keep c (list env p c s)"
| "invoke env (Put a b) c s = keep c (put env a b c s)"
| "invoke env (Get a b) c s = keep c (get env a b c s)"
| "invoke env (Delete p) c s = keep c (delete env p c s)"
| "invoke env (Mkdir p r) c s = keep c (mkdir env p r c s)"
| "invoke env (Rmdir p r) c s = keep c (rmdir env p r c s)"
| "invoke env (Rename a b) c s = keep c (rename env a b c s)"
| "invoke env (Chmod p m) c s = keep c (chmod env p m c s)"
| "invoke env (Exists p) c s = keep c (exists env p c s)"
| "invoke env (Stat p) c s = keep c (stat env p c s)"
| "invoke env (ReadFile p e) c s = keep c (readFile env p e c s)"
| "invoke env (WriteFile p d e) c s = keep c (writeFile env p d e c s)"
| "invoke env (PutDir a b) c s = keep c (putDir env a b c s)"
| "invoke env (GetDir a b) c s = keep c (getDir env a b c s)"
| "invoke env Pwd c s = keep c (pwd env c s)"

fun is_session_call :: "facade_call \<Rightarrow> bool" where
  "is_session_call (Connect cfg) = True"
| "is_session_call Disconnect = True"
| "is_session_call other = False"

section \<open>Sessions, shapes and example environments\<close>

text \<open>A result counts as a success when its \<^verbatim>\<open>success\<close> field is \<^verbatim>\<open>true\<close>; a throw does not.\<close>

definition succeeded :: "js_error + js_obj \<Rightarrow> bool" where
  "succeeded r = (case r of Inl e \<Rightarrow> False | Inr obj \<Rightarrow> property obj ''success'' = JBool True)"

text \<open>A sequence of calls on one client, oldest first, with the log of what each returned.\<close>

fun run :: "'w env \<Rightarrow> facade_call list \<Rightarrow> SFTPClient \<Rightarrow> 'w sys \<Rightarrow>
    (facade_call \<times> (js_error + js_obj)) list \<times> SFTPClient \<times> 'w sys" where
  "run env [] c s = ([], c, s)"
| "run env (x # xs) c s =
     (case invoke env x c s of
        (r, c1, s1) \<Rightarrow>
          (case run env xs c1 s1 of (log, c2, s2) \<Rightarrow> ((x, r) # log, c2, s2)))"

text \<open>
  Whether a session is open, read off the log alone: a \<^verbatim>\<open>connect\<close> that succeeded opens
  it, a \<^verbatim>\<open>disconnect\<close> that succeeded closes it, and every other call, a \<^verbatim>\<open>disconnect\<close> that
  returned \<^verbatim>\<open>success: false\<close> among them, leaves it as it was. The \<^verbatim>\<open>catch\<close> of
  \<^verbatim>\<open>disconnect\<close> does not assign to \<^verbatim>\<open>connected\<close>, so a disconnect that fails cannot count
  as closing the session.
\<close>

fun session_step :: "bool \<Rightarrow> facade_call \<Rightarrow> js_error + js_obj \<Rightarrow> bool" where
  "session_step b (Connect cfg) r = (if succeeded r then True else b)"
| "session_step b Disconnect r = (if succeeded r then False else b)"
| "session_step b other r = b"

fun session_open :: "bool \<Rightarrow> (facade_call \<times> (js_error + js_obj)) list \<Rightarrow> bool" where
  "session_open b [] = b"
| "session_open b ((x, r) # rest) = session_open (session_step b x r) rest"

text \<open>
  An example world for the concrete evaluations below: a server that lists
  \<^verbatim>\<open>/home/user\<close> with two entries and has no file \<^verbatim>\<open>/a\<close>, and a local machine with one
  directory \<^verbatim>\<open>/tmp/in\<close> holding one file. The world itself carries no state.
\<close>

definition example_client :: "unit sftp_api" where
  "example_client = \<lparr>
     client_connect = (\<lambda>cfg w. (Inr (), w)),
     client_end = (\<lambda>w. (Inr (), w)),
     client_list = (\<lambda>p w.
        if p = ''/home/user'' then
          (Inr [[(''type'', JStr ''d''), (''name'', JStr ''docs''), (''size'', JNum 0)],
                [(''type'', JStr ''-''), (''name'', JStr ''a.txt''), (''size'', JNum 120)]], w)
        else (Inl (Error ''No such file''), w)),
     client_put = (\<lambda>a b w. (Inr (), w)),
     client_put_buffer = (\<lambda>a b w. (Inr (), w)),
     client_get = (\<lambda>a b w. (Inr (), w)),
     client_get_buffer = (\<lambda>p w. (Inr ''hello'', w)),
     client_delete = (\<lambda>p w. (Inr (), w)),
     client_mkdir = (\<lambda>p r w. (Inr (), w)),
     client_rmdir = (\<lambda>p r w. (Inr (), w)),
     client_rename = (\<lambda>a b w. if a = ''/a'' then (Inl (Error ''NoSuchFile''), w) else (Inr (), w)),
     client_chmod = (\<lambda>p m w. (Inr (), w)),
     client_exists = (\<lambda>p w. (Inr (if p = ''/home/user'' then JStr ''d'' else JBool False), w)),
     client_stat = (\<lambda>p w. (Inr (JObj [(''size'', JNum 0)]), w)),
     client_uploadDir = (\<lambda>a b w. (Inr (), w)),
     client_downloadDir = (\<lambda>a b w. (Inr (), w)),
     client_cwd = (\<lambda>w. (Inr ''/home/user'', w))\<rparr>"

definition example_node :: "unit node_api" where
  "example_node = \<lparr>
     fs_readFileSync_buffer = (\<lambda>p w. (Inr ''key'', w)),
     fs_readFileSync = (\<lambda>p e w. (Inr ''text'', w)),
     fs_readdirSync = (\<lambda>p w.
        if p = ''/tmp/in'' then (Inr [\<lparr>name = ''a.txt'', isDirectory = False\<rparr>], w)
        else (Inl (Error ''ENOENT''), w)),
     fs_statSync = (\<lambda>p w. (Inr \<lparr>props = [(''size'', JNum 5), (''mtimeMs'', JNum 1), (''atimeMs'', JNum 2)],
                                   stats_isDirectory = False\<rparr>, w)),
     fs_copyFileSync = (\<lambda>a b w. (Inr (), w)),
     fs_unlinkSync = (\<lambda>p w. (Inr (), w)),
     fs_mkdirSync = (\<lambda>p r w. (Inr (), w)),
     fs_rmSync = (\<lambda>p r w. (Inr (), w)),
     fs_renameSync = (\<lambda>a b w. (Inr (), w)),
     fs_chmodSync = (\<lambda>p m w. (Inr (), w)),
     fs_existsSync = (\<lambda>p w. (p = ''/tmp/in'', w)),
     fs_writeFileSync = (\<lambda>p c e w. (Inr (), w)),
     process_cwd = (\<lambda>w. (Inr ''/tmp'', w)),
     path_join = (\<lambda>a b. a @ ''/'' @ b),
     Buffer_from = (\<lambda>str e. Inr str),
     Buffer_toString = (\<lambda>buf e. Inr buf),
     stack_limit = 3\<rparr>"

definition example_env :: "unit env" where
  "example_env = \<lparr>client = example_client, node = example_node\<rparr>"

definition start :: "unit sys" where
  "start = \<lparr>world = (), trace = []\<rparr>"

definition example_config :: "string \<Rightarrow> string option \<Rightarrow> SFTPConfig" where
  "example_config h pw = \<lparr>host = h, port = None, username = ''user'', password = pw,
     privateKey = None, passphrase = None, retries = None, retry_factor = None,
     retry_minTimeout = None\<rparr>"

definition session :: "string \<Rightarrow> SFTPClient" where
  "session h = \<lparr>connected = True, config = Some (example_config h (Some ''secret''))\<rparr>"

text \<open>The same world with a server whose connection cannot be ended: \<^verbatim>\<open>client.end()\<close> rejects.\<close>

definition stuck_env :: "unit env" where
  "stuck_env = \<lparr>client = example_client\<lparr>client_end := (\<lambda>w. (Inl (Error ''socket hang up''), w))\<rparr>,
                 node = example_node\<rparr>"

text \<open>The fields of a listing entry that the specification names, and their values.\<close>

definition listed_fields :: "string list" where
  "listed_fields = [''type'', ''name'', ''size'', ''modifyTime'', ''accessTime'']"

definition fields_of :: "js_value \<Rightarrow> js_value list" where
  "fields_of v = (case v of JObj f \<Rightarrow> map (property f) listed_fields | _ \<Rightarrow> [])"

text \<open>
  The shape every returned object has in the code: \<^verbatim>\<open>success\<close> and \<^verbatim>\<open>message\<close>, then
  \<^verbatim>\<open>data\<close> on some successes, or \<^verbatim>\<open>error\<close> (a string) on every failure.
\<close>

definition is_string :: "js_value \<Rightarrow> bool" where
  "is_string v = (case v of JStr str \<Rightarrow> True | _ \<Rightarrow> False)"

definition result_shape :: "js_obj \<Rightarrow> bool" where
  "result_shape r =
     (case property r ''success'' of
        JBool b \<Rightarrow>
          is_string (property r ''message'') \<and>
          (if b then map fst r = [''success'', ''message''] \<or>
                     map fst r = [''success'', ''message'', ''data'']
           else map fst r = [''success'', ''message'', ''error''] \<and>
                is_string (property r ''error''))
      | _ \<Rightarrow> False)"

text \<open>
  The outside calls made between two states, and the relation "the trace only grew, and
  if one of the new calls threw then \<open>failed\<close> holds".
\<close>

definition new_events :: "'w sys \<Rightarrow> 'w sys \<Rightarrow> io_event list" where
  "new_events s s' = drop (length (trace s)) (trace s')"

definition advances :: "'w sys \<Rightarrow> 'w sys \<Rightarrow> bool \<Rightarrow> bool" where
  "advances s s' failed =
     (take (length (trace s)) (trace s') = trace s \<and>
      (list_ex threw (new_events s s') \<longrightarrow> failed))"

text \<open>A computation that throws whenever one of its outside calls throws.\<close>

definition rethrows :: "('w, 'a) io \<Rightarrow> bool" where
  "rethrows m = (\<forall>s r s'. m s = (r, s') \<longrightarrow> advances s s' (isl r))"

text \<open>A returned object of the right shape that reports every thrown outside call as a failure.\<close>

definition reported :: "'w sys \<Rightarrow> js_obj \<times> 'w sys \<Rightarrow> bool" where
  "reported s rs =
     (result_shape (fst rs) \<and>
      advances s (snd rs) (property (fst rs) ''success'' = JBool False))"

section \<open>Properties\<close>

subsection \<open>The connected flag\<close>

lemmas op_defs = list_def put_def get_def delete_def mkdir_def rmdir_def rename_def chmod_def
  exists_def stat_def readFile_def writeFile_def putDir_def getDir_def pwd_def

lemma not_connected_throws:
  assumes "\<not> connected c" and "\<not> is_session_call opn"
  shows "invoke env opn c s = (Inl (Error ''Not connected to server''), c, s)"
  using assms by (cases opn) (simp_all add: keep_def checkConnection_def op_defs Let_def)

lemma property_ok_result [simp]: "property (ok_result m) ''success'' = JBool True"
  by (simp add: property_def ok_result_def)

lemma property_ok_data [simp]: "property (ok_data m d) ''success'' = JBool True"
  by (simp add: property_def ok_data_def)

lemma property_fail_result [simp]: "property (fail_result m e) ''success'' = JBool False"
  by (simp add: property_def fail_result_def)

lemma connect_outcome:
  assumes "connect env cfg c s = (r, c1, s1)"
  shows "(\<exists>m. r = Inr (ok_result m) \<and> connected c1) \<or>
         (\<exists>e. r = Inr (fail_result ''Connection failed'' e) \<and> \<not> connected c1)"
  using assms
  by (auto simp add: connect_def Let_def connect_catch_def split: if_splits prod.splits sum.splits)

lemma disconnect_outcome:
  assumes "disconnect env c s = (r, c1, s1)"
  shows "(\<exists>m. r = Inr (ok_result m) \<and> \<not> connected c1) \<or>
         (\<exists>e. r = Inr (fail_result ''Disconnect failed'' e) \<and> c1 = c)"
  using assms
  by (auto simp add: disconnect_def split: if_splits prod.splits sum.splits)

lemma operation_keeps_client:
  assumes "\<not> is_session_call opn" and "invoke env opn c s = (r, c1, s1)"
  shows "c1 = c"
  using assms by (cases opn) (simp_all add: keep_def)

lemma invoke_session_step:
  assumes "invoke env x c s = (r, c1, s1)" and "connected c \<longrightarrow> b"
  shows "connected c1 \<longrightarrow> session_step b x r"
proof (cases "is_session_call x")
  case False
  with assms operation_keeps_client [OF False assms(1)] show ?thesis
    by (cases x) simp_all
next
  case True
  then show ?thesis
  proof (cases x)
    case (Connect cfg)
    with assms(1) connect_outcome [of env cfg c s r c1 s1] show ?thesis
      by (auto simp add: succeeded_def)
  next
    case Disconnect
    with assms disconnect_outcome [of env c s r c1 s1] show ?thesis
      by (auto simp add: succeeded_def)
  qed simp_all
qed

text \<open>
  The flag of the code is never set outside a session of the specification: along any
  sequence of calls, \<^verbatim>\<open>connected\<close> implies that the session is open.
\<close>

lemma run_session_invariant:
  assumes "run env history c s = (log, c', s')" and "connected c \<longrightarrow> b"
  shows "connected c' \<longrightarrow> session_open b log"
  using assms
proof (induction history arbitrary: c s log b)
  case Nil
  then show ?case by simp
next
  case (Cons x xs)
  obtain r c1 s1 where inv: "invoke env x c s = (r, c1, s1)"
    by (cases "invoke env x c s") auto
  obtain log1 where rest: "run env xs c1 s1 = (log1, c', s')" and log: "log = (x, r) # log1"
    using Cons.prems(1) inv by (auto split: prod.splits)
  from invoke_session_step [OF inv Cons.prems(2)]
  have "connected c1 \<longrightarrow> session_step b x r" .
  from Cons.IH [OF rest this] show ?case by (simp add: log)
qed

subsection \<open>Shapes and traces\<close>

lemma result_shape_ok_result: "result_shape (ok_result m)"
  by (simp add: result_shape_def ok_result_def property_def is_string_def)

lemma result_shape_ok_data: "result_shape (ok_data m d)"
  by (simp add: result_shape_def ok_data_def property_def is_string_def)

lemma result_shape_fail_result: "result_shape (fail_result m e)"
  by (simp add: result_shape_def fail_result_def property_def is_string_def)

lemma result_shape_no_errorKind: "result_shape r \<Longrightarrow> \<not> has_field r ''errorKind''"
  by (auto simp add: result_shape_def has_field_def split: js_value.splits if_splits)

lemma advances_refl: "advances s s f"
  by (simp add: advances_def new_events_def)

lemma advances_append:
  "trace s' = trace s @ new \<Longrightarrow> advances s s' f = (list_ex threw new \<longrightarrow> f)"
  by (simp add: advances_def new_events_def)

lemma advances_trans:
  assumes "advances s s1 False" and "advances s1 s2 f"
  shows "advances s s2 f"
proof -
  from assms(1) obtain n1 where n1: "trace s1 = trace s @ n1" "\<not> list_ex threw n1"
    unfolding advances_def new_events_def
    by (metis append_take_drop_id)
  from assms(2) obtain n2 where n2: "trace s2 = trace s1 @ n2" "list_ex threw n2 \<longrightarrow> f"
    unfolding advances_def new_events_def
    by (metis append_take_drop_id)
  have "trace s2 = trace s @ (n1 @ n2)" using n1 n2 by simp
  from advances_append [OF this] n1 n2 show ?thesis by (auto simp add: list_ex_iff)
qed

lemma advances_True: "advances s s' f \<Longrightarrow> advances s s' True"
  by (simp add: advances_def)

lemma advances_call: "call k f s = (r, s') \<Longrightarrow> advances s s' (isl r)"
  by (auto simp add: call_def advances_def new_events_def split: prod.splits)

lemma advances_call_nothrow: "call_nothrow k f s = (r, s') \<Longrightarrow> advances s s' False"
  by (auto simp add: call_nothrow_def advances_def new_events_def split: prod.splits)

lemma rethrows_call: "rethrows (call k f)"
  by (simp add: rethrows_def advances_call)

lemma rethrows_lift: "rethrows (lift x)"
  by (simp add: rethrows_def lift_def advances_refl)

lemma rethrowsD: "rethrows m \<Longrightarrow> m s = (r, s') \<Longrightarrow> advances s s' (isl r)"
  by (simp add: rethrows_def)

lemma rethrows_bind:
  assumes "rethrows m" and "\<And>v. rethrows (f v)"
  shows "rethrows (bind_io m f)"
  unfolding rethrows_def
proof (intro allI impI)
  fix s r s' assume b: "bind_io m f s = (r, s')"
  obtain r1 s1 where m: "m s = (r1, s1)" by (cases "m s") auto
  show "advances s s' (isl r)"
  proof (cases r1)
    case (Inl e)
    with b m have "r = Inl e" "s' = s1" by (simp_all add: bind_io_def)
    with rethrowsD [OF assms(1) m] Inl show ?thesis by simp
  next
    case (Inr v)
    with b m have f: "f v s1 = (r, s')" by (simp add: bind_io_def)
    from rethrowsD [OF assms(1) m] Inr have "advances s s1 False" by simp
    from advances_trans [OF this rethrowsD [OF assms(2) f]] show ?thesis .
  qed
qed

lemma listLocal_items_advances:
  "listLocal_items env dirPath items s = (r, s') \<Longrightarrow> advances s s' (isl r)"
proof (induction items arbitrary: s r s')
  case Nil
  then show ?case by (auto simp add: advances_refl)
next
  case (Cons item rest)
  let ?p = "path_join (node env) dirPath (name item)"
  obtain r1 s1 where c: "call (FsStatSync ?p) (fs_statSync (node env) ?p) s = (r1, s1)"
    by (cases "call (FsStatSync ?p) (fs_statSync (node env) ?p) s") auto
  show ?case
  proof (cases r1)
    case (Inl e)
    with Cons.prems c have "r = Inl e" "s' = s1" by (simp_all add: Let_def)
    with advances_call [OF c] Inl show ?thesis by simp
  next
    case (Inr stats)
    obtain r2 s2 where rec: "listLocal_items env dirPath rest s1 = (r2, s2)"
      by (cases "listLocal_items env dirPath rest s1") auto
    from Cons.prems c Inr rec have "isl r = isl r2" "s' = s2"
      by (auto simp add: Let_def split: sum.splits)
    moreover from advances_call [OF c] Inr have "advances s s1 False" by simp
    ultimately show ?thesis using advances_trans [OF _ Cons.IH [OF rec]] by simp
  qed
qed

lemma rethrows_listLocal_items: "rethrows (listLocal_items env dirPath items)"
  by (simp add: rethrows_def listLocal_items_advances)

lemma copyDir_advances:
  "(\<forall>r s'. copyDirRecursive env depth src dest s = (r, s') \<longrightarrow> advances s s' (isl r))"
  "(\<forall>r s'. copyDir_items env depth src dest items s = (r, s') \<longrightarrow> advances s s' (isl r))"
proof (induction env depth src dest s and env depth src dest items s
       rule: copyDirRecursive_copyDir_items.induct)
  case (1 env src dest s)
  then show ?case by (simp add: advances_True [OF advances_refl])
next
  case (2 env depth src dest s)
  show ?case
  proof (intro allI impI)
    fix r s' assume run: "copyDirRecursive env (Suc depth) src dest s = (r, s')"
    obtain ex s1 where e: "call_nothrow (FsExistsSync dest) (fs_existsSync (node env) dest) s = (ex, s1)"
      by (cases "call_nothrow (FsExistsSync dest) (fs_existsSync (node env) dest) s") auto
    let ?mk = "if \<not> ex then call (FsMkdirSync dest True) (fs_mkdirSync (node env) dest True) s1
               else (Inr (), s1)"
    obtain r2 s2 where mk: "?mk = (r2, s2)" by (cases ?mk) auto
    have a1: "advances s s1 False" using advances_call_nothrow [OF e] .
    have a2: "advances s1 s2 (isl r2)"
      using mk advances_call advances_refl by (auto split: if_splits)
    show "advances s s' (isl r)"
    proof (cases r2)
      case (Inl err)
      with run e mk have "r = Inl err" "s' = s2" by (auto split: if_splits)
      with a2 Inl advances_trans [OF a1] show ?thesis by simp
    next
      case (Inr u)
      obtain r3 s3 where rd: "call (FsReaddirSync src) (fs_readdirSync (node env) src) s2 = (r3, s3)"
        by (cases "call (FsReaddirSync src) (fs_readdirSync (node env) src) s2") auto
      from a2 Inr have a2': "advances s1 s2 False" by simp
      have a12: "advances s s2 False" using advances_trans [OF a1 a2'] .
      show ?thesis
      proof (cases r3)
        case (Inl err)
        with run e mk Inr rd have "r = Inl err" "s' = s3" by (auto split: if_splits)
        with advances_call [OF rd] Inl advances_trans [OF a12] show ?thesis by simp
      next
        case items: (Inr items)
        with run e mk Inr rd have it: "copyDir_items env depth src dest items s3 = (r, s')"
          by (auto split: if_splits)
        from advances_call [OF rd] items have a3: "advances s2 s3 False" by simp
        have "advances s3 s' (isl r)"
          using "2.IH" [OF e [symmetric] mk [symmetric] Inr rd [symmetric] items] it
          by simp
        with advances_trans [OF advances_trans [OF a12 a3]] show ?thesis by simp
      qed
    qed
  qed
next
  case (3 env depth src dest s)
  then show ?case by (simp add: advances_refl)
next
  case (4 env depth src dest item rest s)
  let ?sp = "path_join (node env) src (name item)"
  let ?dp = "path_join (node env) dest (name item)"
  let ?step = "if isDirectory item then copyDirRecursive env depth ?sp ?dp s
               else call (FsCopyFileSync ?sp ?dp) (fs_copyFileSync (node env) ?sp ?dp) s"
  show ?case
  proof (intro allI impI)
    fix r s' assume run: "copyDir_items env depth src dest (item # rest) s = (r, s')"
    obtain r1 s1 where st: "?step = (r1, s1)" by (cases ?step) auto
    have a1: "advances s s1 (isl r1)"
    proof (cases "isDirectory item")
      case True
      with st "4.IH"(1) [OF refl refl True] show ?thesis by simp
    next
      case False
      with st have "call (FsCopyFileSync ?sp ?dp) (fs_copyFileSync (node env) ?sp ?dp) s = (r1, s1)"
        by simp
      then show ?thesis by (rule advances_call)
    qed
    show "advances s s' (isl r)"
    proof (cases r1)
      case (Inl err)
      with run st have "r = Inl err" "s' = s1" by (simp_all add: Let_def)
      with a1 Inl show ?thesis by simp
    next
      case (Inr u)
      with run st have rest: "copyDir_items env depth src dest rest s1 = (r, s')"
        by (simp add: Let_def)
      from "4.IH"(2) [OF refl refl st [symmetric] Inr] rest
      have "advances s1 s' (isl r)" by simp
      moreover from a1 Inr have "advances s s1 False" by simp
      ultimately show ?thesis using advances_trans by blast
    qed
  qed
qed

lemma rethrows_copyDirRecursive: "rethrows (copyDirRecursive env depth src dest)"
  by (simp add: rethrows_def copyDir_advances(1))

lemma try_catch_reported:
  assumes "rethrows body"
      and "\<And>v. result_shape (on_ok v) \<and> property (on_ok v) ''success'' = JBool True"
  shows "reported s (try_catch body on_ok msg s)"
proof -
  obtain r s' where b: "body s = (r, s')" by (cases "body s") auto
  from rethrowsD [OF assms(1) b] have a: "advances s s' (isl r)" .
  show ?thesis
  proof (cases r)
    case (Inl e)
    with b a show ?thesis
      by (simp add: try_catch_def reported_def result_shape_fail_result advances_True)
  next
    case (Inr v)
    with b a assms(2) [of v] show ?thesis
      by (simp add: try_catch_def reported_def)
  qed
qed

lemma existsLocal_body_rethrows:
  "rethrows (\<lambda>s. case call_nothrow k1 f1 s of
               (ex, s1) \<Rightarrow>
                 if ex then
                   (case call k2 f2 s1 of
                      (Inl e, s2) \<Rightarrow> (Inl e, s2)
                    | (Inr stats, s2) \<Rightarrow> (Inr (g ex stats), s2))
                 else (Inr (h ex), s1))"
  unfolding rethrows_def
proof (intro allI impI)
  fix s r s'
  assume run: "(case call_nothrow k1 f1 s of
               (ex, s1) \<Rightarrow>
                 if ex then
                   (case call k2 f2 s1 of
                      (Inl e, s2) \<Rightarrow> (Inl e, s2)
                    | (Inr stats, s2) \<Rightarrow> (Inr (g ex stats), s2))
                 else (Inr (h ex), s1)) = (r, s')"
  obtain ex s1 where e: "call_nothrow k1 f1 s = (ex, s1)" by (cases "call_nothrow k1 f1 s") auto
  have a1: "advances s s1 False" using advances_call_nothrow [OF e] .
  show "advances s s' (isl r)"
  proof (cases ex)
    case False
    with run e a1 show ?thesis by auto
  next
    case True
    obtain r2 s2 where c: "call k2 f2 s1 = (r2, s2)" by (cases "call k2 f2 s1") auto
    from run e True c have "isl r = isl r2" "s' = s2" by (auto split: sum.splits)
    with advances_trans [OF a1 advances_call [OF c]] show ?thesis by simp
  qed
qed

lemmas rethrows_intros = rethrows_call rethrows_lift rethrows_bind
  rethrows_listLocal_items rethrows_copyDirRecursive existsLocal_body_rethrows

lemmas local_defs = listLocal_def putLocal_def getLocal_def deleteLocal_def mkdirLocal_def
  rmdirLocal_def renameLocal_def chmodLocal_def existsLocal_def statLocal_def
  readFileLocal_def writeFileLocal_def putDirLocal_def getDirLocal_def

lemma ok_data_good: "result_shape (ok_data m d) \<and> property (ok_data m d) ''success'' = JBool True"
  by (simp add: result_shape_ok_data)

lemma ok_data_good_pair:
  "result_shape (case v of (a, b) \<Rightarrow> ok_data m (d a b)) \<and>
   property (case v of (a, b) \<Rightarrow> ok_data m (d a b)) ''success'' = JBool True"
  by (cases v) (simp add: result_shape_ok_data)

lemma local_reported:
  "reported s (listLocal env p s)"
  "reported s (putLocal env a b s)"
  "reported s (getLocal env a b s)"
  "reported s (deleteLocal env p s)"
  "reported s (mkdirLocal env p rec s)"
  "reported s (rmdirLocal env p rec s)"
  "reported s (renameLocal env a b s)"
  "reported s (chmodLocal env p m s)"
  "reported s (existsLocal env p s)"
  "reported s (statLocal env p s)"
  "reported s (readFileLocal env p enc s)"
  "reported s (writeFileLocal env p d enc s)"
  "reported s (putDirLocal env a b s)"
  "reported s (getDirLocal env a b s)"
  unfolding local_defs Let_def
  by (intro try_catch_reported rethrows_intros ok_data_good ok_data_good_pair)+

lemma guarded_reported:
  assumes "connected c" and "reported s X"
  shows "\<exists>r s'. (case checkConnection c of Inl e \<Rightarrow> (Inl e, s) | Inr u \<Rightarrow> apfst Inr X) = (Inr r, s') \<and>
                 reported s (r, s')"
  using assms by (cases X) (simp add: checkConnection_def)

lemma operation_reported:
  assumes "connected c"
  shows "\<exists>r s'. list env p' c s = (Inr r, s') \<and> reported s (r, s')"
    and "\<exists>r s'. put env a b c s = (Inr r, s') \<and> reported s (r, s')"
    and "\<exists>r s'. get env a b c s = (Inr r, s') \<and> reported s (r, s')"
    and "\<exists>r s'. delete env p c s = (Inr r, s') \<and> reported s (r, s')"
    and "\<exists>r s'. mkdir env p rec' c s = (Inr r, s') \<and> reported s (r, s')"
    and "\<exists>r s'. rmdir env p rec' c s = (Inr r, s') \<and> reported s (r, s')"
    and "\<exists>r s'. rename env a b c s = (Inr r, s') \<and> reported s (r, s')"
    and "\<exists>r s'. chmod env p m c s = (Inr r, s') \<and> reported s (r, s')"
    and "\<exists>r s'. exists env p c s = (Inr r, s') \<and> reported s (r, s')"
    and "\<exists>r s'. stat env p c s = (Inr r, s') \<and> reported s (r, s')"
    and "\<exists>r s'. readFile env p enc' c s = (Inr r, s') \<and> reported s (r, s')"
    and "\<exists>r s'. writeFile env p d enc' c s = (Inr r, s') \<and> reported s (r, s')"
    and "\<exists>r s'. putDir env a b c s = (Inr r, s') \<and> reported s (r, s')"
    and "\<exists>r s'. getDir env a b c s = (Inr r, s') \<and> reported s (r, s')"
    and "\<exists>r s'. pwd env c s = (Inr r, s') \<and> reported s (r, s')"
  unfolding op_defs Let_def
  by (rule guarded_reported [OF assms],
      (simp only: if_split local_reported simp_thms)?,
      (intro conjI impI try_catch_reported rethrows_intros ok_data_good)?)+


lemma connect_auth_advances:
  "connect_auth env cfg cfg1 s = (r, s') \<Longrightarrow> advances s s' (isl r)"
  by (auto simp add: connect_auth_def advances_refl advances_True [OF advances_refl]
        dest: advances_call
        split: if_splits option.splits private_key.splits prod.splits sum.splits)

lemma connect_tail_reported:
  "\<exists>r c' s'.
     (case connect_auth env cfg cfg1 s of
        (Inl e, s1) \<Rightarrow> connect_catch e c1 s1
      | (Inr cfg2, s1) \<Rightarrow>
          (case call (ClientConnect cfg2) (client_connect (client env) cfg2) s1 of
             (Inl e, s2) \<Rightarrow> connect_catch e (c2 cfg2) s2
           | (Inr u, s2) \<Rightarrow> (Inr (ok_result m), c3 cfg2, s2))) = (Inr r, c', s') \<and>
     reported s (r, s')"
proof -
  obtain ra s1 where au: "connect_auth env cfg cfg1 s = (ra, s1)"
    by (cases "connect_auth env cfg cfg1 s") auto
  have a1: "advances s s1 (isl ra)" using connect_auth_advances [OF au] .
  show ?thesis
  proof (cases ra)
    case (Inl e)
    with au a1 show ?thesis
      by (simp add: connect_catch_def reported_def result_shape_fail_result)
  next
    case (Inr cfg2)
    obtain r2 s2 where cc: "call (ClientConnect cfg2) (client_connect (client env) cfg2) s1 = (r2, s2)"
      by (cases "call (ClientConnect cfg2) (client_connect (client env) cfg2) s1") auto
    from a1 Inr have "advances s s1 False" by simp
    from advances_trans [OF this advances_call [OF cc]] have a2: "advances s s2 (isl r2)" .
    show ?thesis
    proof (cases r2)
      case (Inl e)
      with au Inr cc a2 show ?thesis
        by (simp add: connect_catch_def reported_def result_shape_fail_result)
    next
      case r2: (Inr u)
      with au Inr cc a2 show ?thesis
        by (simp add: reported_def result_shape_ok_result)
    qed
  qed
qed

lemma connect_reported:
  "\<exists>r c' s'. connect env cfg c s = (Inr r, c', s') \<and> reported s (r, s')"
proof (cases "host cfg = ''localhost'' \<or> host cfg = ''127.0.0.1''")
  case True
  then show ?thesis
    by (simp add: connect_def reported_def result_shape_ok_result advances_refl)
next
  case False
  then show ?thesis
    unfolding connect_def Let_def by (simp only: if_False) (rule connect_tail_reported)
qed

lemma disconnect_reported:
  "\<exists>r c' s'. disconnect env c s = (Inr r, c', s') \<and> reported s (r, s')"
proof (cases "isLocalhost c")
  case True
  then show ?thesis
    by (simp add: disconnect_def reported_def result_shape_ok_result advances_refl)
next
  case False
  obtain r1 s1 where e: "call ClientEnd (client_end (client env)) s = (r1, s1)"
    by (cases "call ClientEnd (client_end (client env)) s") auto
  from advances_call [OF e] False e show ?thesis
    by (cases r1)
       (simp_all add: disconnect_def reported_def result_shape_ok_result result_shape_fail_result)
qed

lemma keep_reported:
  "\<exists>r s'. X = (Inr r, s') \<and> reported s (r, s') \<Longrightarrow>
   \<exists>r c' s'. keep c X = (Inr r, c', s') \<and> reported s (r, s')"
  by (auto simp add: keep_def)

lemma invoke_reported:
  assumes "connected c \<or> is_session_call opn"
  shows "\<exists>r c' s'. invoke env opn c s = (Inr r, c', s') \<and> reported s (r, s')"
proof (cases "is_session_call opn")
  case True
  then show ?thesis using connect_reported disconnect_reported
    by (cases opn) simp_all
next
  case False
  with assms have con: "connected c" by simp
  show ?thesis
    using False
    by (cases opn)
       (simp_all only: invoke.simps is_session_call.simps simp_thms,
        (intro keep_reported operation_reported [OF con])+)
qed

lemmas example_defs = example_env_def example_client_def example_node_def start_def
  example_config_def session_def

subsection \<open>The claims\<close>

text \<open>
  Claim C1, as amended. Every facade call that returns an object (connect, disconnect
  and the fifteen operations; an operation on a client that is not connected throws
  instead) returns one of a single shape: a boolean \<^verbatim>\<open>success\<close> and a string \<^verbatim>\<open>message\<close>,
  then nothing more or \<^verbatim>\<open>data\<close> when \<^verbatim>\<open>success\<close> is true, and exactly a string \<^verbatim>\<open>error\<close> when
  it is false. No returned object has a field \<^verbatim>\<open>errorKind\<close>.
\<close>

theorem returned_results_share_one_shape:
  assumes "invoke env opn c s = (Inr r, c', s')"
  shows "result_shape r \<and> \<not> has_field r ''errorKind''"
proof (cases "connected c \<or> is_session_call opn")
  case True
  from invoke_reported [OF True, of env s] assms show ?thesis
    by (auto simp add: reported_def result_shape_no_errorKind)
next
  case False
  with not_connected_throws [of c opn env s] assms show ?thesis by simp
qed

text \<open>The failed rename of the example server has that shape.\<close>

theorem returned_results_share_one_shape_witness:
  "invoke example_env (Rename ''/a'' ''/b'') (session ''example.com'') start =
     (Inr [(''success'', JBool False), (''message'', JStr ''Rename failed''),
           (''error'', JStr ''NoSuchFile'')],
      session ''example.com'',
      \<lparr>world = (), trace = [Event (ClientRename ''/a'' ''/b'') True]\<rparr>) \<and>
   result_shape [(''success'', JBool False), (''message'', JStr ''Rename failed''),
           (''error'', JStr ''NoSuchFile'')] \<and>
   \<not> has_field [(''success'', JBool False), (''message'', JStr ''Rename failed''),
           (''error'', JStr ''NoSuchFile'')] ''errorKind''"
  using returned_results_share_one_shape [of example_env "Rename ''/a'' ''/b''"
      "session ''example.com''" start
      "[(''success'', JBool False), (''message'', JStr ''Rename failed''),
           (''error'', JStr ''NoSuchFile'')]" "session ''example.com''"
      "\<lparr>world = (), trace = [Event (ClientRename ''/a'' ''/b'') True]\<rparr>"]
  by (simp add: example_defs isLocalhost_def rename_def checkConnection_def try_catch_def
        call_def fail_result_def keep_def)

text \<open>
  Claim C1 as stated fails: connecting to a remote host without credentials returns a
  failure object whose fields are \<^verbatim>\<open>success\<close>, \<^verbatim>\<open>message\<close> and \<^verbatim>\<open>error\<close>; it carries no
  \<^verbatim>\<open>errorKind\<close>.
\<close>

theorem uniform_shape_errorKind_counterexample:
  "fst (connect example_env (example_config ''example.com'' None) new_client start) =
     Inr [(''success'', JBool False), (''message'', JStr ''Connection failed''),
          (''error'', JStr ''Password or private key is required'')] \<and>
   \<not> has_field [(''success'', JBool False), (''message'', JStr ''Connection failed''),
          (''error'', JStr ''Password or private key is required'')] ''errorKind''"
  by (simp add: example_defs connect_def Let_def connect_auth_def connect_catch_def
        fail_result_def str_truthy_def has_field_def)

text \<open>
  Claim C2, as amended. For every operation other than connect and disconnect: when the
  calls made so far on a fresh client contain no successful connect since the start or
  since the last disconnect that returned success, the operation throws the
  not-connected error, and the client, the world and the trace of outside calls are
  unchanged, so no I/O was attempted. A disconnect that returned \<^verbatim>\<open>success: false\<close> does
  not end the session.
\<close>

theorem operations_require_session:
  assumes "run env history new_client s0 = (log, c, s)"
      and "\<not> session_open False log"
      and "\<not> is_session_call opn"
  shows "invoke env opn c s = (Inl (Error ''Not connected to server''), c, s)"
proof -
  have "connected new_client \<longrightarrow> False" by (simp add: new_client_def)
  from run_session_invariant [OF assms(1) this] assms(2) have "\<not> connected c" by blast
  then show ?thesis using assms(3) by (rule not_connected_throws)
qed

text \<open>After a successful connect and a successful disconnect, \<^verbatim>\<open>stat\<close> throws.\<close>

theorem operations_require_session_witness:
  "\<not> session_open False
       (fst (run example_env [Connect (example_config ''example.com'' (Some ''secret'')), Disconnect]
               new_client start)) \<and>
   \<not> is_session_call (Stat ''/home/user'') \<and>
   invoke example_env (Stat ''/home/user'')
     (fst (snd (run example_env [Connect (example_config ''example.com'' (Some ''secret'')), Disconnect]
               new_client start)))
     (snd (snd (run example_env [Connect (example_config ''example.com'' (Some ''secret'')), Disconnect]
               new_client start))) =
   (Inl (Error ''Not connected to server''),
    snd (run example_env [Connect (example_config ''example.com'' (Some ''secret'')), Disconnect]
               new_client start))"
proof -
  let ?R = "run example_env [Connect (example_config ''example.com'' (Some ''secret'')), Disconnect]
               new_client start"
  have closed: "\<not> session_open False (fst ?R)"
    by (simp add: example_defs new_client_def connect_def Let_def connect_auth_def str_truthy_def
          call_def disconnect_def isLocalhost_def succeeded_def num_or_def)
  have "?R = (fst ?R, fst (snd ?R), snd (snd ?R))" by simp
  from operations_require_session [OF this closed, of "Stat ''/home/user''"] closed
  show ?thesis by simp
qed

text \<open>
  Claim C2 as stated fails after a disconnect that has completed with a failure: on the
  server whose connection cannot be ended, connect succeeds, disconnect returns
  \<^verbatim>\<open>Disconnect failed\<close> and leaves the flag set, and the \<^verbatim>\<open>stat\<close> that follows does not throw
  the not-connected error: it calls the SFTP client and returns its answer.
\<close>

theorem failed_disconnect_counterexample:
  "fst (run stuck_env
          [Connect (example_config ''example.com'' (Some ''secret'')), Disconnect,
           Stat ''/home/user''] new_client start) =
     [(Connect (example_config ''example.com'' (Some ''secret'')),
       Inr [(''success'', JBool True), (''message'', JStr ''Connected to example.com:22'')]),
      (Disconnect,
       Inr [(''success'', JBool False), (''message'', JStr ''Disconnect failed''),
            (''error'', JStr ''socket hang up'')]),
      (Stat ''/home/user'',
       Inr [(''success'', JBool True), (''message'', JStr ''Stats retrieved successfully''),
            (''data'', JObj [(''size'', JNum 0)])])] \<and>
   isConnected (fst (snd (run stuck_env
          [Connect (example_config ''example.com'' (Some ''secret'')), Disconnect]
          new_client start))) \<and>
   fst (invoke stuck_env (Stat ''/home/user'')
          (fst (snd (run stuck_env
             [Connect (example_config ''example.com'' (Some ''secret'')), Disconnect]
             new_client start)))
          (snd (snd (run stuck_env
             [Connect (example_config ''example.com'' (Some ''secret'')), Disconnect]
             new_client start)))) \<noteq>
     Inl (Error ''Not connected to server'') \<and>
   map call_of (trace (snd (snd (run stuck_env
          [Connect (example_config ''example.com'' (Some ''secret'')), Disconnect,
           Stat ''/home/user''] new_client start)))) =
     [ClientConnect \<lparr>host = ''example.com'', port = Some 22, username = ''user'',
           password = Some ''secret'', privateKey = None, passphrase = None, retries = Some 3,
           retry_factor = Some 2, retry_minTimeout = Some 2000\<rparr>,
      ClientEnd, ClientStat ''/home/user'']"
  by code_simp

text \<open>
  Claim C3. A facade call on a connected client (and connect or disconnect on any
  client) never throws: it returns an object of the uniform shape, and if any outside
  call it made threw, on the SFTP client or on the local file system, that object has
  \<^verbatim>\<open>success: false\<close>. The only error a facade call throws is the not-connected error, and
  then the client, the world and the trace are unchanged: it is raised before any I/O.
\<close>

theorem failures_are_returned_not_thrown:
  "(connected c \<or> is_session_call opn \<longrightarrow>
      (\<exists>r c' s'. invoke env opn c s = (Inr r, c', s') \<and> result_shape r \<and>
         take (length (trace s)) (trace s') = trace s \<and>
         (list_ex threw (new_events s s') \<longrightarrow> property r ''success'' = JBool False))) \<and>
   (fst (invoke env opn c s) = Inl e \<longrightarrow>
      e = Error ''Not connected to server'' \<and> snd (invoke env opn c s) = (c, s))"
proof (rule conjI)
  show "connected c \<or> is_session_call opn \<longrightarrow>
      (\<exists>r c' s'. invoke env opn c s = (Inr r, c', s') \<and> result_shape r \<and>
         take (length (trace s)) (trace s') = trace s \<and>
         (list_ex threw (new_events s s') \<longrightarrow> property r ''success'' = JBool False))"
  proof
    assume "connected c \<or> is_session_call opn"
    from invoke_reported [OF this, of env s]
    show "\<exists>r c' s'. invoke env opn c s = (Inr r, c', s') \<and> result_shape r \<and>
           take (length (trace s)) (trace s') = trace s \<and>
           (list_ex threw (new_events s s') \<longrightarrow> property r ''success'' = JBool False)"
      by (auto simp add: reported_def advances_def)
  qed
  show "fst (invoke env opn c s) = Inl e \<longrightarrow>
      e = Error ''Not connected to server'' \<and> snd (invoke env opn c s) = (c, s)"
  proof
    assume thrown: "fst (invoke env opn c s) = Inl e"
    have "\<not> (connected c \<or> is_session_call opn)"
    proof
      assume "connected c \<or> is_session_call opn"
      from invoke_reported [OF this, of env s] thrown show False by auto
    qed
    with not_connected_throws [of c opn env s] thrown
    show "e = Error ''Not connected to server'' \<and> snd (invoke env opn c s) = (c, s)" by simp
  qed
qed

text \<open>
  On the example server a rename that fails is returned, and \<^verbatim>\<open>pwd\<close> on a fresh client
  throws without any outside call.
\<close>

theorem failures_are_returned_not_thrown_witness:
  "connected (session ''example.com'') \<and>
   (\<exists>r c' s'. invoke example_env (Rename ''/a'' ''/b'') (session ''example.com'') start = (Inr r, c', s') \<and>
      result_shape r \<and> take (length (trace start)) (trace s') = trace start \<and>
      (list_ex threw (new_events start s') \<longrightarrow> property r ''success'' = JBool False)) \<and>
   fst (invoke example_env Pwd new_client start) = Inl (Error ''Not connected to server'') \<and>
   snd (invoke example_env Pwd new_client start) = (new_client, start)"
  using failures_are_returned_not_thrown [of "session ''example.com''" "Rename ''/a'' ''/b''"
          example_env start "Error ''x''"]
        failures_are_returned_not_thrown [of new_client Pwd example_env start
          "Error ''Not connected to server''"]
  by (simp add: session_def new_client_def pwd_def checkConnection_def keep_def)

text \<open>
  Claim C4, as amended. On a connected session with a remote host, when the SFTP client
  fails \<^verbatim>\<open>rename(a, b)\<close> with a detail, the facade returns exactly
  \<^verbatim>\<open>{success: false, message: 'Rename failed', error: detail}\<close>, after that one outside call:
  the detail of the server is in the field \<^verbatim>\<open>error\<close>, the message is the fixed text.
\<close>

theorem rename_failure_result:
  assumes "connected c" and "\<not> isLocalhost c"
      and "client_rename (client env) a b (world s) = (Inl (Error detail), w')"
  shows "rename env a b c s =
           (Inr [(''success'', JBool False), (''message'', JStr ''Rename failed''),
                 (''error'', JStr detail)],
            \<lparr>world = w', trace = trace s @ [Event (ClientRename a b) True]\<rparr>)"
  using assms
  by (simp add: rename_def checkConnection_def try_catch_def call_def fail_result_def)

text \<open>The scenario of the specification: \<^verbatim>\<open>rename('/a','/b')\<close> failing with \<^verbatim>\<open>NoSuchFile\<close>.\<close>

theorem rename_failure_result_witness:
  "connected (session ''example.com'') \<and> \<not> isLocalhost (session ''example.com'') \<and>
   client_rename (client example_env) ''/a'' ''/b'' (world start) = (Inl (Error ''NoSuchFile''), ()) \<and>
   rename example_env ''/a'' ''/b'' (session ''example.com'') start =
     (Inr [(''success'', JBool False), (''message'', JStr ''Rename failed''),
           (''error'', JStr ''NoSuchFile'')],
      \<lparr>world = (), trace = [Event (ClientRename ''/a'' ''/b'') True]\<rparr>)"
  using rename_failure_result [of "session ''example.com''" example_env "''/a''" "''/b''" start "''NoSuchFile''" "()"]
  by (simp add: example_defs isLocalhost_def)

text \<open>
  Claim C4 as stated fails in that scenario: the object returned is not
  \<^verbatim>\<open>{success: false, errorKind: 'RemoteOperationError', message: 'NoSuchFile'}\<close>; it has no
  field \<^verbatim>\<open>errorKind\<close> and its \<^verbatim>\<open>message\<close> is not the detail of the server.
\<close>

theorem rename_errorKind_counterexample:
  "fst (rename example_env ''/a'' ''/b'' (session ''example.com'') start) =
     Inr [(''success'', JBool False), (''message'', JStr ''Rename failed''),
          (''error'', JStr ''NoSuchFile'')] \<and>
   fst (rename example_env ''/a'' ''/b'' (session ''example.com'') start) \<noteq>
     Inr [(''success'', JBool False), (''errorKind'', JStr ''RemoteOperationError''),
          (''message'', JStr ''NoSuchFile'')] \<and>
   \<not> has_field [(''success'', JBool False), (''message'', JStr ''Rename failed''),
          (''error'', JStr ''NoSuchFile'')] ''errorKind'' \<and>
   property [(''success'', JBool False), (''message'', JStr ''Rename failed''),
          (''error'', JStr ''NoSuchFile'')] ''message'' \<noteq> JStr ''NoSuchFile''"
  by (simp add: example_defs isLocalhost_def rename_def checkConnection_def try_catch_def
        call_def fail_result_def has_field_def property_def)

text \<open>
  Claim C5. On a connected session with a remote host, for every listing the SFTP client
  yields, \<^verbatim>\<open>list\<close> returns \<^verbatim>\<open>success: true\<close> with \<^verbatim>\<open>data\<close> an array that has one object per
  entry, in the same order, whose \<^verbatim>\<open>type\<close>, \<^verbatim>\<open>name\<close>, \<^verbatim>\<open>size\<close>, \<^verbatim>\<open>modifyTime\<close> and \<^verbatim>\<open>accessTime\<close>
  are those of the entry.
\<close>

theorem list_preserves_entries:
  assumes "connected c" and "\<not> isLocalhost c"
      and "client_list (client env) (default_arg p' ''/'') (world s) = (Inr items, w')"
  shows "\<exists>files s'. list env p' c s =
            (Inr [(''success'', JBool True), (''message'', JStr ''Files listed successfully''),
                  (''data'', JArr files)], s') \<and>
          map fields_of files = map (\<lambda>item. map (property item) listed_fields) items"
  using assms
  by (simp add: list_def Let_def checkConnection_def try_catch_def call_def ok_data_def
        fields_of_def listed_fields_def property_def comp_def)

text \<open>The scenario of the specification: \<^verbatim>\<open>/home/user\<close> with the entries \<^verbatim>\<open>docs\<close> and \<^verbatim>\<open>a.txt\<close>.\<close>

theorem list_preserves_entries_witness:
  "connected (session ''example.com'') \<and> \<not> isLocalhost (session ''example.com'') \<and>
   client_list (client example_env) ''/home/user'' (world start) =
     (Inr [[(''type'', JStr ''d''), (''name'', JStr ''docs''), (''size'', JNum 0)],
           [(''type'', JStr ''-''), (''name'', JStr ''a.txt''), (''size'', JNum 120)]], ()) \<and>
   (\<exists>files s'. list example_env (Some ''/home/user'') (session ''example.com'') start =
            (Inr [(''success'', JBool True), (''message'', JStr ''Files listed successfully''),
                  (''data'', JArr files)], s') \<and>
          map fields_of files =
            [[JStr ''d'', JStr ''docs'', JNum 0, JUndefined, JUndefined],
             [JStr ''-'', JStr ''a.txt'', JNum 120, JUndefined, JUndefined]])"
  using list_preserves_entries [of "session ''example.com''" example_env "Some ''/home/user''" start
      "[[(''type'', JStr ''d''), (''name'', JStr ''docs''), (''size'', JNum 0)],
        [(''type'', JStr ''-''), (''name'', JStr ''a.txt''), (''size'', JNum 120)]]" "()"]
  by (simp add: example_defs isLocalhost_def listed_fields_def property_def default_arg_def)

text \<open>
  Claim C6 at the host \<^verbatim>\<open>localhost:2222\<close>, which is neither \<^verbatim>\<open>localhost\<close> nor \<^verbatim>\<open>127.0.0.1\<close>:
  connect goes through the SFTP client, and stores the host without its port; the
  \<^verbatim>\<open>list\<close> that follows reads the local file system, and \<^verbatim>\<open>disconnect\<close> makes no outside call
  at all, so the connection of the SFTP client is never ended. The session mixes the
  two modes, where the claim has every operation go through the SFTP client.
\<close>

theorem localhost_with_port_mixes_modes:
  "map call_of (trace (snd (snd (run example_env
      [Connect (example_config ''localhost:2222'' (Some ''secret'')),
       List (Some ''/tmp/in''), Disconnect] new_client start)))) =
   [ClientConnect \<lparr>host = ''localhost'', port = Some 2222, username = ''user'',
           password = Some ''secret'', privateKey = None, passphrase = None, retries = Some 3,
           retry_factor = Some 2, retry_minTimeout = Some 2000\<rparr>,
    FsReaddirSync ''/tmp/in'', FsStatSync ''/tmp/in/a.txt''] \<and>
   map (\<lambda>ev. is_client_call (call_of ev)) (trace (snd (snd (run example_env
      [Connect (example_config ''localhost:2222'' (Some ''secret'')),
       List (Some ''/tmp/in''), Disconnect] new_client start)))) =
   [True, False, False]"
  by code_simp

text \<open>
  Claim C8. For a host that is exactly \<^verbatim>\<open>localhost\<close> or \<^verbatim>\<open>127.0.0.1\<close>, connect returns
  \<^verbatim>\<open>{success: true, message: 'Connected to localhost'}\<close>, sets the flag and stores the
  configuration, whatever the credentials, and leaves the world and the trace
  unchanged: no server is contacted. For any other host, a configuration with neither
  a password nor a private key makes connect return a failure object, again without any
  outside call, and leaves the client not connected.
\<close>

theorem connect_localhost_without_credentials:
  "(host cfg = ''localhost'' \<or> host cfg = ''127.0.0.1'' \<longrightarrow>
      connect env cfg c s =
        (Inr [(''success'', JBool True), (''message'', JStr ''Connected to localhost'')],
         c\<lparr>connected := True, config := Some cfg\<rparr>, s)) \<and>
   (host cfg \<noteq> ''localhost'' \<and> host cfg \<noteq> ''127.0.0.1'' \<and>
    password cfg = None \<and> privateKey cfg = None \<longrightarrow>
      (\<exists>c'. connect env cfg c s =
         (Inr [(''success'', JBool False), (''message'', JStr ''Connection failed''),
               (''error'', JStr ''Password or private key is required'')], c', s) \<and>
         \<not> isConnected c'))"
  by (simp add: connect_def ok_result_def Let_def connect_auth_def connect_catch_def
        fail_result_def str_truthy_def isConnected_def)

text \<open>Both halves on the example world: \<^verbatim>\<open>127.0.0.1\<close> and \<^verbatim>\<open>example.com\<close>, without credentials.\<close>

theorem connect_localhost_without_credentials_witness:
  "host (example_config ''127.0.0.1'' None) = ''127.0.0.1'' \<and>
   connect example_env (example_config ''127.0.0.1'' None) new_client start =
     (Inr [(''success'', JBool True), (''message'', JStr ''Connected to localhost'')],
      \<lparr>connected = True, config = Some (example_config ''127.0.0.1'' None)\<rparr>, start) \<and>
   host (example_config ''example.com'' None) \<noteq> ''localhost'' \<and>
   host (example_config ''example.com'' None) \<noteq> ''127.0.0.1'' \<and>
   password (example_config ''example.com'' None) = None \<and>
   privateKey (example_config ''example.com'' None) = None \<and>
   (\<exists>c'. connect example_env (example_config ''example.com'' None) new_client start =
         (Inr [(''success'', JBool False), (''message'', JStr ''Connection failed''),
               (''error'', JStr ''Password or private key is required'')], c', start) \<and>
         \<not> isConnected c')"
  using connect_localhost_without_credentials [of "example_config ''127.0.0.1'' None" example_env new_client start]
        connect_localhost_without_credentials [of "example_config ''example.com'' None" example_env new_client start]
  by (simp add: example_config_def new_client_def)

text \<open>
  Claim C9. On a connected localhost session \<^verbatim>\<open>get(a, b)\<close> and \<^verbatim>\<open>put(a, b)\<close> are the same
  computation, with the same returned object, world and trace, and so are
  \<^verbatim>\<open>getDir(a, b)\<close> and \<^verbatim>\<open>putDir(a, b)\<close>. The first pair leaves the world and the trace that
  one \<^verbatim>\<open>copyFileSync(a, b)\<close> leaves, the second those of the recursive copy of \<open>a\<close> to \<open>b\<close>.
\<close>

theorem localhost_get_equals_put:
  assumes "connected c" and "isLocalhost c"
  shows "get env a b c s = put env a b c s \<and>
         getDir env a b c s = putDir env a b c s \<and>
         snd (get env a b c s) = snd (call (FsCopyFileSync a b) (fs_copyFileSync (node env) a b) s) \<and>
         snd (getDir env a b c s) = snd (copyDirRecursive env (stack_limit (node env)) a b s)"
  using assms
  by (simp add: get_def put_def getDir_def putDir_def checkConnection_def getLocal_def
        getDirLocal_def putLocal_def putDirLocal_def try_catch_def split: prod.splits sum.splits)

text \<open>On the example machine: one file, and the directory \<^verbatim>\<open>/tmp/in\<close> with its one file.\<close>

theorem localhost_get_equals_put_witness:
  "connected (session ''localhost'') \<and> isLocalhost (session ''localhost'') \<and>
   get example_env ''/tmp/in/a.txt'' ''/tmp/b.txt'' (session ''localhost'') start =
     put example_env ''/tmp/in/a.txt'' ''/tmp/b.txt'' (session ''localhost'') start \<and>
   getDir example_env ''/tmp/in'' ''/tmp/out'' (session ''localhost'') start =
     putDir example_env ''/tmp/in'' ''/tmp/out'' (session ''localhost'') start \<and>
   snd (get example_env ''/tmp/in/a.txt'' ''/tmp/b.txt'' (session ''localhost'') start) =
     \<lparr>world = (), trace = [Event (FsCopyFileSync ''/tmp/in/a.txt'' ''/tmp/b.txt'') False]\<rparr> \<and>
   map call_of (trace (snd (getDir example_env ''/tmp/in'' ''/tmp/out'' (session ''localhost'') start))) =
     [FsExistsSync ''/tmp/out'', FsMkdirSync ''/tmp/out'' True, FsReaddirSync ''/tmp/in'',
      FsCopyFileSync ''/tmp/in/a.txt'' ''/tmp/out/a.txt'']"
proof -
  have h: "connected (session ''localhost'')" "isLocalhost (session ''localhost'')"
    by (simp_all add: session_def example_config_def isLocalhost_def)
  have e1: "snd (call (FsCopyFileSync ''/tmp/in/a.txt'' ''/tmp/b.txt'')
                  (fs_copyFileSync (node example_env) ''/tmp/in/a.txt'' ''/tmp/b.txt'') start) =
            \<lparr>world = (), trace = [Event (FsCopyFileSync ''/tmp/in/a.txt'' ''/tmp/b.txt'') False]\<rparr>"
    by (simp add: example_env_def example_node_def start_def call_def)
  have e2: "map call_of (trace (snd (copyDirRecursive example_env (stack_limit (node example_env))
                  ''/tmp/in'' ''/tmp/out'' start))) =
            [FsExistsSync ''/tmp/out'', FsMkdirSync ''/tmp/out'' True, FsReaddirSync ''/tmp/in'',
             FsCopyFileSync ''/tmp/in/a.txt'' ''/tmp/out/a.txt'']"
    by (simp add: example_env_def example_node_def start_def call_def call_nothrow_def
          eval_nat_numeral)
  note for_file = localhost_get_equals_put [OF h, of example_env "''/tmp/in/a.txt''" "''/tmp/b.txt''" start]
  note for_dir = localhost_get_equals_put [OF h, of example_env "''/tmp/in''" "''/tmp/out''" start]
  have g1: "get example_env ''/tmp/in/a.txt'' ''/tmp/b.txt'' (session ''localhost'') start =
     put example_env ''/tmp/in/a.txt'' ''/tmp/b.txt'' (session ''localhost'') start"
    using for_file by blast
  have g2: "getDir example_env ''/tmp/in'' ''/tmp/out'' (session ''localhost'') start =
     putDir example_env ''/tmp/in'' ''/tmp/out'' (session ''localhost'') start"
    using for_dir by blast
  have "snd (get example_env ''/tmp/in/a.txt'' ''/tmp/b.txt'' (session ''localhost'') start) =
     snd (call (FsCopyFileSync ''/tmp/in/a.txt'' ''/tmp/b.txt'')
                  (fs_copyFileSync (node example_env) ''/tmp/in/a.txt'' ''/tmp/b.txt'') start)"
    using for_file by blast
  with e1 have g3: "snd (get example_env ''/tmp/in/a.txt'' ''/tmp/b.txt'' (session ''localhost'') start) =
     \<lparr>world = (), trace = [Event (FsCopyFileSync ''/tmp/in/a.txt'' ''/tmp/b.txt'') False]\<rparr>"
    by simp
  have "snd (getDir example_env ''/tmp/in'' ''/tmp/out'' (session ''localhost'') start) =
     snd (copyDirRecursive example_env (stack_limit (node example_env)) ''/tmp/in'' ''/tmp/out'' start)"
    using for_dir by blast
  with e2 have g4: "map call_of (trace (snd (getDir example_env ''/tmp/in'' ''/tmp/out''
        (session ''localhost'') start))) =
     [FsExistsSync ''/tmp/out'', FsMkdirSync ''/tmp/out'' True, FsReaddirSync ''/tmp/in'',
      FsCopyFileSync ''/tmp/in/a.txt'' ''/tmp/out/a.txt'']"
    by simp
  from h g1 g2 g3 g4 show ?thesis by blast
qed

text \<open>
  Claim C10. Whenever connect returns an object with \<^verbatim>\<open>success: false\<close>, the client is
  left not connected, and every operation invoked on it afterwards, in whatever state
  of the world, throws the not-connected error without any outside call.
\<close>

theorem failed_connect_leaves_disconnected:
  assumes "connect env cfg c s = (Inr r, c', s')" and "property r ''success'' = JBool False"
  shows "\<not> isConnected c' \<and>
         (\<not> is_session_call opn \<longrightarrow>
            invoke env opn c' s'' = (Inl (Error ''Not connected to server''), c', s''))"
proof -
  from connect_outcome [OF assms(1)] assms(2) have "\<not> connected c'" by auto
  then show ?thesis using not_connected_throws [of c' opn env s'']
    by (simp add: isConnected_def)
qed

text \<open>A connect to \<^verbatim>\<open>example.com\<close> without credentials, then \<^verbatim>\<open>list\<close>.\<close>

theorem failed_connect_leaves_disconnected_witness:
  "connect example_env (example_config ''example.com'' None) new_client start =
     (Inr [(''success'', JBool False), (''message'', JStr ''Connection failed''),
           (''error'', JStr ''Password or private key is required'')],
      \<lparr>connected = False,
         config = Some \<lparr>host = ''example.com'', port = Some 22, username = ''user'',
           password = None, privateKey = None, passphrase = None, retries = Some 3,
           retry_factor = Some 2, retry_minTimeout = Some 2000\<rparr>\<rparr>, start) \<and>
   property [(''success'', JBool False), (''message'', JStr ''Connection failed''),
           (''error'', JStr ''Password or private key is required'')] ''success'' = JBool False \<and>
   \<not> is_session_call (List None) \<and>
   invoke example_env (List None)
      \<lparr>connected = False,
         config = Some \<lparr>host = ''example.com'', port = Some 22, username = ''user'',
           password = None, privateKey = None, passphrase = None, retries = Some 3,
           retry_factor = Some 2, retry_minTimeout = Some 2000\<rparr>\<rparr> start =
     (Inl (Error ''Not connected to server''),
      \<lparr>connected = False,
         config = Some \<lparr>host = ''example.com'', port = Some 22, username = ''user'',
           password = None, privateKey = None, passphrase = None, retries = Some 3,
           retry_factor = Some 2, retry_minTimeout = Some 2000\<rparr>\<rparr>, start)"
  using failed_connect_leaves_disconnected [of example_env "example_config ''example.com'' None"
      new_client start
      "[(''success'', JBool False), (''message'', JStr ''Connection failed''),
           (''error'', JStr ''Password or private key is required'')]"
      "\<lparr>connected = False,
         config = Some \<lparr>host = ''example.com'', port = Some 22, username = ''user'',
           password = None, privateKey = None, passphrase = None, retries = Some 3,
           retry_factor = Some 2, retry_minTimeout = Some 2000\<rparr>\<rparr>" start "List None" start]
  by (simp add: example_defs new_client_def connect_def Let_def connect_auth_def connect_catch_def
        fail_result_def str_truthy_def num_or_def property_def)

end
